theory Spec2Isabelle
  imports Complex_Main "HOL-Library.Sublist" "HOL-Library.AList"
begin

section \<open>Values of the program\<close>

text \<open>
  \<open>index.js\<close> handles parsed JSON throughout: the request body, the audit tool's
  report, the generation endpoint's response. A parsed JSON value is a \<open>json\<close>; the
  fields of an object are listed in the order the runtime enumerates them, and a name
  is looked up at its first entry. A JavaScript value that may be \<open>undefined\<close> is a
  \<open>json option\<close>, \<open>None\<close> being \<open>undefined\<close>. Strings are \<open>string\<close>.

  A number is an IEEE 754 double: a finite one is given by its exact value, which is a
  rational, and there are the two infinities and \<open>NaN\<close>. The sign of a zero is not
  kept; nothing in the program can tell \<open>-0\<close> from \<open>0\<close>.
\<close>

datatype number =
    Finite rat
  | PosInfinity
  | NegInfinity
  | NaN

datatype json =
    JNull
  | JBool bool
  | JNum number
  | JStr string
  | JArr "json list"
  | JObj "(string \<times> json) list"

text \<open>Whatever is thrown inside the program, by kind.\<close>

datatype exn =
    TypeError
  | ExecError
  | ReadError
  | FetchError
  | BodyError
  | ApiError

definition and_then :: "exn + 'a \<Rightarrow> ('a \<Rightarrow> exn + 'b) \<Rightarrow> exn + 'b" where
  "and_then m f = (case m of Inl e \<Rightarrow> Inl e | Inr x \<Rightarrow> f x)"

text \<open>The response of \<open>fetch\<close>: it rejects, or resolves to a response whose \<open>ok\<close> flag is
  given and whose \<open>json()\<close> resolves to a value or rejects (\<open>None\<close>).\<close>

datatype fetch_result =
    Rejected
  | Response bool string "json option"

text \<open>
  What the program calls and does not define: the child process, the file system, the
  network, and the built-ins of the runtime whose results depend on the text of a
  number or of a path. The outside world is a state \<open>'w\<close> that every call may change.
  \<^item> \<open>exec cmd\<close>: \<open>child_process.exec\<close>, \<open>True\<close> when the callback gets no error;
  \<^item> \<open>read_report path\<close>: \<open>JSON.parse(fs.readFileSync(path, "utf-8"))\<close>, \<open>None\<close> when
    either throws;
  \<^item> \<open>fetch url body\<close>: \<open>fetch(url, {method: "POST", ..., body: JSON.stringify(body)})\<close>;
  \<^item> \<open>path_join\<close>, \<open>rootPath\<close>: \<open>path.join\<close> and \<open>process.cwd()\<close>;
  \<^item> \<open>NumberToString\<close>, \<open>StringToNumber\<close>: the conversions between a finite number and
    its text, and from a text to the number it denotes;
  \<^item> \<open>JSON_stringify v\<close>: \<open>JSON.stringify(v, null, 2)\<close>.
\<close>

record 'w env =
  exec :: "string \<Rightarrow> 'w \<Rightarrow> bool \<times> 'w"
  read_report :: "string \<Rightarrow> 'w \<Rightarrow> json option \<times> 'w"
  fetch :: "string \<Rightarrow> json \<Rightarrow> 'w \<Rightarrow> fetch_result \<times> 'w"
  path_join :: "string \<Rightarrow> string \<Rightarrow> string"
  rootPath :: string
  NumberToString :: "rat \<Rightarrow> string"
  StringToNumber :: "string \<Rightarrow> number"
  JSON_stringify :: "json \<Rightarrow> string"

subsection \<open>Truthiness, property access, coercions\<close>

definition truthy :: "json option \<Rightarrow> bool" where
  "truthy v =
     (case v of
        None \<Rightarrow> False
      | Some JNull \<Rightarrow> False
      | Some (JBool b) \<Rightarrow> b
      | Some (JNum n) \<Rightarrow> n \<noteq> Finite 0 \<and> n \<noteq> NaN
      | Some (JStr s) \<Rightarrow> s \<noteq> []
      | Some (JArr xs) \<Rightarrow> True
      | Some (JObj kvs) \<Rightarrow> True)"

definition nullish :: "json option \<Rightarrow> bool" where
  "nullish v = (v = None \<or> v = Some JNull)"

definition isArray :: "json option \<Rightarrow> bool" where
  "isArray v = (case v of Some (JArr xs) \<Rightarrow> True | _ \<Rightarrow> False)"

text \<open>
  \<open>v.k\<close> for the names the program reads (\<open>categories\<close>, \<open>accessibility\<close>, \<open>score\<close>,
  \<open>audits\<close>, \<open>id\<close>, \<open>title\<close>, \<open>description\<close>, \<open>details\<close>, \<open>items\<close>, \<open>length\<close>, \<open>node\<close>,
  \<open>snippet\<close>, \<open>candidates\<close>, \<open>content\<close>, \<open>parts\<close>, \<open>text\<close>, \<open>error\<close>, \<open>message\<close>, \<open>urls\<close>,
  \<open>apiKey\<close>): none of them is inherited from a prototype, so a name that is not an own
  property reads as \<open>undefined\<close>; reading a property of \<open>undefined\<close> or \<open>null\<close> throws.
\<close>

definition get_prop :: "json option \<Rightarrow> string \<Rightarrow> exn + json option" where
  "get_prop v k =
     (case v of
        None \<Rightarrow> Inl TypeError
      | Some JNull \<Rightarrow> Inl TypeError
      | Some (JObj kvs) \<Rightarrow> Inr (map_of kvs k)
      | Some (JArr xs) \<Rightarrow>
          Inr (if k = ''length'' then Some (JNum (Finite (of_nat (length xs)))) else None)
      | Some (JStr s) \<Rightarrow>
          Inr (if k = ''length'' then Some (JNum (Finite (of_nat (length s)))) else None)
      | Some (JBool b) \<Rightarrow> Inr None
      | Some (JNum r) \<Rightarrow> Inr None)"

text \<open>\<open>v?.k\<close>: \<open>undefined\<close> when \<open>v\<close> is \<open>undefined\<close> or \<open>null\<close>, else \<open>v.k\<close>.\<close>

definition opt_prop :: "json option \<Rightarrow> string \<Rightarrow> json option" where
  "opt_prop v k =
     (if nullish v then None
      else (case get_prop v k of Inl e \<Rightarrow> None | Inr r \<Rightarrow> r))"

text \<open>\<open>v[0]\<close>.\<close>

definition get_first :: "json option \<Rightarrow> exn + json option" where
  "get_first v =
     (case v of
        None \<Rightarrow> Inl TypeError
      | Some JNull \<Rightarrow> Inl TypeError
      | Some (JObj kvs) \<Rightarrow> Inr (map_of kvs ''0'')
      | Some (JArr xs) \<Rightarrow> Inr (case xs of [] \<Rightarrow> None | x # rest \<Rightarrow> Some x)
      | Some (JStr s) \<Rightarrow> Inr (case s of [] \<Rightarrow> None | c # rest \<Rightarrow> Some (JStr [c]))
      | Some (JBool b) \<Rightarrow> Inr None
      | Some (JNum r) \<Rightarrow> Inr None)"

text \<open>\<open>a || b\<close> with \<open>b\<close> a defined value.\<close>

definition or_else :: "json option \<Rightarrow> json \<Rightarrow> json" where
  "or_else v d = (case v of None \<Rightarrow> d | Some x \<Rightarrow> if truthy (Some x) then x else d)"

text \<open>
  The string a template literal puts in for a value. An array is its elements joined
  by commas, \<open>null\<close> elements empty; a plain object is \<open>[object Object]\<close>, unless it has
  an own \<open>toString\<close> entry, which is not callable, so the conversion throws.
\<close>

fun to_string :: "'w env \<Rightarrow> json \<Rightarrow> exn + string"
  and join_elems :: "'w env \<Rightarrow> json list \<Rightarrow> exn + string" where
  "to_string env JNull = Inr ''null''"
| "to_string env (JBool b) = Inr (if b then ''true'' else ''false'')"
| "to_string env (JNum n) =
     Inr (case n of
            Finite r \<Rightarrow> NumberToString env r
          | PosInfinity \<Rightarrow> ''Infinity''
          | NegInfinity \<Rightarrow> ''-Infinity''
          | NaN \<Rightarrow> ''NaN'')"
| "to_string env (JStr s) = Inr s"
| "to_string env (JArr xs) = join_elems env xs"
| "to_string env (JObj kvs) =
     (if ''toString'' \<in> set (map fst kvs) then Inl TypeError else Inr ''[object Object]'')"
| "join_elems env [] = Inr []"
| "join_elems env [x] = (if x = JNull then Inr [] else to_string env x)"
| "join_elems env (x # y # ys) =
     and_then (if x = JNull then Inr [] else to_string env x) (\<lambda>s.
     and_then (join_elems env (y # ys)) (\<lambda>t. Inr (s @ '','' @ t)))"

text \<open>\<open>undefined\<close> in a template literal.\<close>

definition to_string_opt :: "'w env \<Rightarrow> json option \<Rightarrow> exn + string" where
  "to_string_opt env v = (case v of None \<Rightarrow> Inr ''undefined'' | Some x \<Rightarrow> to_string env x)"

text \<open>The number an arithmetic operator sees.\<close>

definition to_number :: "'w env \<Rightarrow> json option \<Rightarrow> exn + number" where
  "to_number env v =
     (case v of
        None \<Rightarrow> Inr NaN
      | Some JNull \<Rightarrow> Inr (Finite 0)
      | Some (JBool b) \<Rightarrow> Inr (Finite (if b then 1 else 0))
      | Some (JNum n) \<Rightarrow> Inr n
      | Some (JStr s) \<Rightarrow> Inr (StringToNumber env s)
      | Some (JArr xs) \<Rightarrow>
          and_then (to_string env (JArr xs)) (\<lambda>s. Inr (StringToNumber env s))
      | Some (JObj kvs) \<Rightarrow>
          and_then (to_string env (JObj kvs)) (\<lambda>s. Inr (StringToNumber env s)))"

subsection \<open>Arithmetic of doubles\<close>

text \<open>
  The product of two finite doubles is the exact product, rounded to the nearest
  double, a tie going to the even significand (IEEE 754, the one rounding mode the
  language has). A double has 53 significant bits: at a value \<open>x\<close> with
  \<open>2 ^ e \<le> \<bar>x\<bar> < 2 ^ (e + 1)\<close> two neighbouring doubles are \<open>2 ^ (e - 52)\<close> apart, and
  from \<open>e = -1022\<close> downwards the spacing stays that of \<open>e = -1022\<close>. A rounded value of
  \<open>2 ^ 1024\<close> or more is an infinity.
\<close>

text \<open>The number of binary digits of \<open>n\<close>.\<close>

fun bits :: "nat \<Rightarrow> nat" where
  "bits n = (if n = 0 then 0 else Suc (bits (n div 2)))"

declare bits.simps [simp del]

definition pow2 :: "int \<Rightarrow> rat" where
  "pow2 k = (if 0 \<le> k then 2 ^ nat k else 1 / 2 ^ nat (- k))"

text \<open>For \<open>0 < x\<close>, the \<open>e\<close> with \<open>2 ^ e \<le> x < 2 ^ (e + 1)\<close>.\<close>

definition exponent_of :: "rat \<Rightarrow> int" where
  "exponent_of x =
     (if 1 \<le> x then int (bits (nat \<lfloor>x\<rfloor>)) - 1
      else - int (bits (nat (\<lceil>1 / x\<rceil> - 1))))"

text \<open>The integer nearest to \<open>y\<close>, the even one of two at the same distance.\<close>

definition round_ties_even :: "rat \<Rightarrow> int" where
  "round_ties_even y =
     (let f = \<lfloor>y\<rfloor>; d = y - of_int f in
      if d < 1 / 2 then f
      else if 1 / 2 < d then f + 1
      else if even f then f else f + 1)"

text \<open>The double an exact value is rounded to.\<close>

definition round_double :: "rat \<Rightarrow> number" where
  "round_double x =
     (if x = 0 then Finite 0
      else
        (let e = max (exponent_of \<bar>x\<bar>) (- 1022);
             q = pow2 (e - 52);
             r = of_int (round_ties_even (\<bar>x\<bar> / q)) * q
         in if pow2 1024 \<le> r then (if 0 < x then PosInfinity else NegInfinity)
            else Finite (if 0 < x then r else - r)))"

definition sign_of :: "number \<Rightarrow> int" where
  "sign_of n =
     (case n of
        Finite x \<Rightarrow> (if 0 < x then 1 else if x < 0 then - 1 else 0)
      | PosInfinity \<Rightarrow> 1
      | NegInfinity \<Rightarrow> - 1
      | NaN \<Rightarrow> 0)"

text \<open>\<open>a * b\<close> on numbers: \<open>NaN\<close> with a \<open>NaN\<close> and for zero times an infinity, otherwise
  an infinity of the product's sign when a factor is one.\<close>

definition multiply :: "number \<Rightarrow> number \<Rightarrow> number" where
  "multiply a b =
     (if a = NaN \<or> b = NaN then NaN
      else
        (case (a, b) of
           (Finite x, Finite y) \<Rightarrow> round_double (x * y)
         | _ \<Rightarrow>
             if sign_of a * sign_of b = 0 then NaN
             else if 0 < sign_of a * sign_of b then PosInfinity
             else NegInfinity))"

subsection \<open>Text of numbers and of lists\<close>

text \<open>A small non-negative integer in a template literal: its decimal digits.\<close>

fun show_nat :: "nat \<Rightarrow> string" where
  "show_nat n =
     (if n < 10 then [''0123456789'' ! n]
      else show_nat (n div 10) @ [''0123456789'' ! (n mod 10)])"

fun join_with :: "string \<Rightarrow> string list \<Rightarrow> string" where
  "join_with sep [] = []"
| "join_with sep [x] = x"
| "join_with sep (x # y # ys) = x @ sep @ join_with sep (y # ys)"

declare show_nat.simps [simp del]

section \<open>The AI step: \<open>analyzeWithAI\<close>\<close>

definition failure_text :: string where
  "failure_text = ''AI analysis failed.''"

definition endpoint :: string where
  "endpoint =
     ''https://generativelanguage.googleapis.com/v1beta/models/gemini-2.0-flash:generateContent?key=''"

text \<open>The prompt is a template literal: fixed text, the issues, fixed text.\<close>

definition prompt_head :: string where
  \<open>prompt_head =
     ''\<newline>      You are an expert UI/Accessibility engineer. Suggest specific HTML/CSS/ARIA fixes for the accessibility issues found.\<newline>'' @
     ''\<newline>'' @
     ''      Return output ONLY in clean HTML using TailwindCSS classes.  \<newline>'' @
     ''      Strictly follow this structure for every issue:\<newline>'' @
     ''\<newline>'' @
     ''      <div class="issue-card">\<newline>'' @
     ''        <p class="issue-title">[Serial No]: [Issue Title]</p>\<newline>'' @
     ''        <p class="issue-solution">\<newline>'' @
     ''          <span class="strong">Solution:</span> [Fix for the issue, ideally with updated HTML wrapped in <code class="code-block">...</code> blocks]\<newline>'' @
     ''        </p>\<newline>'' @
     ''      </div>\<newline>'' @
     ''\<newline>'' @
     ''      Constraints:\<newline>'' @
     ''      - Do NOT add any pre-text or explanation.\<newline>'' @
     ''      - Only generate the HTML output for each issue in the above structure.\<newline>'' @
     ''      - Wrap any code in <code> blocks with Tailwind styling as shown.\<newline>'' @
     ''      - If not enough context, just return:  \<newline>'' @
     ''      <div class="issue-card">\<newline>'' @
     ''        <p class="issue-title error-text">[Serial No]: [Issue Title]</p>\<newline>'' @
     ''        <p class="issue-solution warning-text">More context is needed for this issue.</p>\<newline>'' @
     ''      </div>\<newline>'' @
     ''\<newline>'' @
     ''      Issues:  \<newline>'' @
     ''      ''\<close>

definition prompt_tail :: string where
  "prompt_tail = ''\<newline>      ''"

definition request_body :: "string \<Rightarrow> json" where
  "request_body prompt =
     JObj [(''contents'', JArr [JObj [(''parts'', JArr [JObj [(''text'', JStr prompt)]])]])]"

text \<open>\<open>s.replace(/```html|```/g, "")\<close>: from left to right, at every position the longer
  marker is tried first, then the shorter; what matches is dropped.\<close>

fun replace_fences :: "string \<Rightarrow> string" where
  "replace_fences [] = []"
| "replace_fences (c # cs) =
     (if prefix ''```html'' (c # cs) then replace_fences (drop 6 cs)
      else if prefix ''```'' (c # cs) then replace_fences (drop 2 cs)
      else c # replace_fences cs)"

text \<open>\<open>data.candidates[0]?.content?.parts[0]?.text\<close>: an optional link that finds
  \<open>undefined\<close> or \<open>null\<close> ends the whole chain with \<open>undefined\<close>; the other links throw
  there.\<close>

definition first_text :: "json \<Rightarrow> exn + json option" where
  "first_text data =
     and_then (get_prop (Some data) ''candidates'') (\<lambda>candidates.
     and_then (get_first candidates) (\<lambda>c0.
       if nullish c0 then Inr None
       else and_then (get_prop c0 ''content'') (\<lambda>content.
         if nullish content then Inr None
         else and_then (get_prop content ''parts'') (\<lambda>parts.
              and_then (get_first parts) (\<lambda>p0. Inr (opt_prop p0 ''text''))))))"

text \<open>\<open>result.replace(...)\<close> with \<open>result = text || "AI analysis failed."\<close>: only a string
  has a \<open>replace\<close> to call.\<close>

definition strip_result :: "json option \<Rightarrow> exn + string" where
  "strip_result t =
     (case or_else t (JStr failure_text) of
        JStr s \<Rightarrow> Inr (replace_fences s)
      | _ \<Rightarrow> Inl TypeError)"

text \<open>The body of the \<open>try\<close> block: \<open>Inl\<close> is an exception on its way to the \<open>catch\<close>.\<close>

definition analyze_try ::
  "'w env \<Rightarrow> string \<Rightarrow> json option \<Rightarrow> 'w \<Rightarrow> (exn + string) \<times> 'w" where
  "analyze_try env issues apiKey w =
     (case to_string_opt env apiKey of
        Inl e \<Rightarrow> (Inl e, w)
      | Inr key \<Rightarrow>
          (case fetch env (endpoint @ key)
                  (request_body (prompt_head @ issues @ prompt_tail)) w of
             (Rejected, w1) \<Rightarrow> (Inl FetchError, w1)
           | (Response ok statusText body, w1) \<Rightarrow>
               if \<not> ok then
                 (case body of
                    None \<Rightarrow> (Inl BodyError, w1)
                  | Some errorData \<Rightarrow>
                      (and_then (get_prop (Some errorData) ''error'') (\<lambda>err.
                       and_then (to_string env
                                  (or_else (opt_prop err ''message'') (JStr statusText)))
                         (\<lambda>msg. Inl ApiError)), w1))
               else
                 (case body of
                    None \<Rightarrow> (Inl BodyError, w1)
                  | Some data \<Rightarrow> (and_then (first_text data) strip_result, w1))))"

text \<open>The \<open>catch\<close>: every exception becomes the fixed text.\<close>

definition analyzeWithAI ::
  "'w env \<Rightarrow> string \<Rightarrow> json option \<Rightarrow> 'w \<Rightarrow> string \<times> 'w" where
  "analyzeWithAI env issues apiKey w =
     (case analyze_try env issues apiKey w of
        (Inl e, w1) \<Rightarrow> (failure_text, w1)
      | (Inr s, w1) \<Rightarrow> (s, w1))"

section \<open>The report: score, issues, their text\<close>

text \<open>\<open>report.categories.accessibility?.score * 100 || 0\<close>.\<close>

definition score_of :: "'w env \<Rightarrow> json \<Rightarrow> exn + number" where
  "score_of env report =
     and_then (get_prop (Some report) ''categories'') (\<lambda>categories.
     and_then (get_prop categories ''accessibility'') (\<lambda>accessibility.
     and_then (to_number env (opt_prop accessibility ''score'')) (\<lambda>n.
       Inr (if truthy (Some (JNum (multiply n (Finite 100))))
            then multiply n (Finite 100) else Finite 0))))"

text \<open>\<open>Object.values(v)\<close>.\<close>

definition object_values :: "json option \<Rightarrow> exn + json list" where
  "object_values v =
     (case v of
        None \<Rightarrow> Inl TypeError
      | Some JNull \<Rightarrow> Inl TypeError
      | Some (JObj kvs) \<Rightarrow> Inr (map snd (AList.clearjunk kvs))
      | Some (JArr xs) \<Rightarrow> Inr xs
      | Some (JStr s) \<Rightarrow> Inr (map (\<lambda>c. JStr [c]) s)
      | Some (JBool b) \<Rightarrow> Inr []
      | Some (JNum r) \<Rightarrow> Inr [])"

text \<open>\<open>.filter((audit) => audit.score === 0)\<close>.\<close>

fun filter_failing :: "json list \<Rightarrow> exn + json list" where
  "filter_failing [] = Inr []"
| "filter_failing (audit # rest) =
     and_then (get_prop (Some audit) ''score'') (\<lambda>score.
     and_then (filter_failing rest) (\<lambda>kept.
       Inr (if score = Some (JNum (Finite 0)) then audit # kept else kept)))"

text \<open>The object the \<open>map\<close> builds for an audit; \<open>details\<close> is always an array of strings.\<close>

record issue =
  issue_id :: "json option"
  issue_title :: "json option"
  issue_description :: "json option"
  issue_details :: json

text \<open>\<open>items.map((item) => JSON.stringify(item, null, 2))\<close>: only an array has a \<open>map\<close>
  to call.\<close>

definition map_stringify :: "'w env \<Rightarrow> json option \<Rightarrow> exn + json" where
  "map_stringify env items =
     (case items of
        Some (JArr xs) \<Rightarrow> Inr (JArr (map (\<lambda>item. JStr (JSON_stringify env item)) xs))
      | _ \<Rightarrow> Inl TypeError)"

text \<open>\<open>audit.details?.items?.map(...) || []\<close>.\<close>

definition detail_strings :: "'w env \<Rightarrow> json \<Rightarrow> exn + json" where
  "detail_strings env audit =
     and_then (get_prop (Some audit) ''details'') (\<lambda>details.
       if nullish details then Inr (JArr [])
       else and_then (get_prop details ''items'') (\<lambda>items.
         if nullish items then Inr (JArr []) else map_stringify env items))"

definition make_issue :: "'w env \<Rightarrow> json \<Rightarrow> exn + issue" where
  "make_issue env audit =
     and_then (get_prop (Some audit) ''id'') (\<lambda>i.
     and_then (get_prop (Some audit) ''title'') (\<lambda>t.
     and_then (get_prop (Some audit) ''description'') (\<lambda>d.
     and_then (detail_strings env audit) (\<lambda>ds.
       Inr \<lparr>issue_id = i, issue_title = t, issue_description = d, issue_details = ds\<rparr>))))"

fun map_issues :: "'w env \<Rightarrow> json list \<Rightarrow> exn + issue list" where
  "map_issues env [] = Inr []"
| "map_issues env (audit # rest) =
     and_then (make_issue env audit) (\<lambda>x.
     and_then (map_issues env rest) (\<lambda>xs. Inr (x # xs)))"

definition extract_issues :: "'w env \<Rightarrow> json \<Rightarrow> exn + issue list" where
  "extract_issues env report =
     and_then (get_prop (Some report) ''audits'') (\<lambda>audits.
     and_then (object_values audits) (\<lambda>checks.
     and_then (filter_failing checks) (\<lambda>failing. map_issues env failing)))"

text \<open>The lines of the \<open>Details\<close> block, item \<open>j\<close> first:
  \<open>item?.node?.snippet || JSON.stringify(item, null, 2)\<close> behind its number.\<close>

fun render_snippets :: "'w env \<Rightarrow> nat \<Rightarrow> json list \<Rightarrow> exn + string list" where
  "render_snippets env j [] = Inr []"
| "render_snippets env j (item # rest) =
     and_then (to_string env
                (or_else (opt_prop (opt_prop (Some item) ''node'') ''snippet'')
                   (JStr (JSON_stringify env item)))) (\<lambda>snippet.
     and_then (render_snippets env (Suc j) rest) (\<lambda>ls.
       Inr ((''    ['' @ show_nat (j + 1) @ '']: '' @ snippet) # ls)))"

text \<open>\<open>detailsText\<close>: empty unless \<open>issue.details?.items?.length\<close> is truthy.\<close>

definition render_details :: "'w env \<Rightarrow> issue \<Rightarrow> exn + string" where
  "render_details env issue =
     (if truthy (opt_prop (opt_prop (Some (issue_details issue)) ''items'') ''length'') then
        (case opt_prop (Some (issue_details issue)) ''items'' of
           Some (JArr xs) \<Rightarrow>
             and_then (render_snippets env 0 xs) (\<lambda>ls.
               Inr (''\<newline>  Details:\<newline>'' @ join_with ''\<newline>'' ls))
         | _ \<Rightarrow> Inl TypeError)
      else Inr [])"

definition render_issue :: "'w env \<Rightarrow> nat \<Rightarrow> issue \<Rightarrow> exn + string" where
  "render_issue env i issue =
     and_then (render_details env issue) (\<lambda>detailsText.
     and_then (to_string env (or_else (issue_title issue) (JStr ''No title''))) (\<lambda>title.
     and_then (to_string env (or_else (issue_description issue) (JStr ''No description'')))
       (\<lambda>description.
         Inr (''['' @ show_nat (i + 1) @ '']: '' @ title @ '' - '' @ description
              @ detailsText))))"

fun render_issues :: "'w env \<Rightarrow> nat \<Rightarrow> issue list \<Rightarrow> exn + string list" where
  "render_issues env i [] = Inr []"
| "render_issues env i (x # xs) =
     and_then (render_issue env i x) (\<lambda>b.
     and_then (render_issues env (Suc i) xs) (\<lambda>bs. Inr (b # bs)))"

definition issues_text :: "'w env \<Rightarrow> issue list \<Rightarrow> exn + string" where
  "issues_text env issues =
     and_then (render_issues env 0 issues) (\<lambda>blocks.
       Inr (join_with ''\<newline>\<newline>'' blocks))"

section \<open>The audit of one URL\<close>

text \<open>\<open>url.replace(/https?:\/\//, "")\<close>: the first match only.\<close>

fun strip_scheme :: "string \<Rightarrow> string" where
  "strip_scheme [] = []"
| "strip_scheme (c # cs) =
     (if prefix ''https://'' (c # cs) then drop 7 cs
      else if prefix ''http://'' (c # cs) then drop 6 cs
      else c # strip_scheme cs)"

text \<open>\<open>.replace(/\//g, "_")\<close> after it.\<close>

definition filename_of :: "string \<Rightarrow> string" where
  "filename_of u = map (\<lambda>c. if c = CHR ''/'' then CHR ''_'' else c) (strip_scheme u)"

definition outputDir :: "'w env \<Rightarrow> string" where
  "outputDir env = rootPath env @ ''public/lighthouse-reports''"

text \<open>The command of \<open>runLighthouse(url, {outputPath})\<close>, every other option at its
  default.\<close>

definition lighthouse_cmd :: "string \<Rightarrow> string \<Rightarrow> string" where
  \<open>lighthouse_cmd url outputPath =
     ''lighthouse '' @ url @ '' ''
       @ join_with '' '' (map (\<lambda>c. ''--only-categories='' @ c) [''accessibility''])
       @ '' --quiet --output=json --output-path='' @ outputPath @ '' ''
       @ join_with '' '' (map (\<lambda>f. ''--chrome-flags="'' @ f @ ''"'')
           [''--headless'', ''--no-sandbox''])
       @ '' --max-wait-for-load='' @ show_nat 60000\<close>

definition runLighthouse :: "'w env \<Rightarrow> string \<Rightarrow> string \<Rightarrow> 'w \<Rightarrow> (exn + unit) \<times> 'w" where
  "runLighthouse env url outputPath w =
     (case exec env (lighthouse_cmd url outputPath) w of
        (True, w1) \<Rightarrow> (Inr (), w1)
      | (False, w1) \<Rightarrow> (Inl ExecError, w1))"

text \<open>What the loop body computes from the report: \<open>score\<close> and \<open>issuesText\<close>.\<close>

definition summarize :: "'w env \<Rightarrow> json \<Rightarrow> exn + number \<times> string" where
  "summarize env report =
     and_then (score_of env report) (\<lambda>score.
     and_then (extract_issues env report) (\<lambda>issues.
     and_then (issues_text env issues) (\<lambda>issuesText. Inr (score, issuesText))))"

text \<open>The loop body up to the AI step. Only a string has a \<open>replace\<close> to call, so a
  \<open>url\<close> of another kind throws at once.\<close>

definition audit_url ::
  "'w env \<Rightarrow> json \<Rightarrow> 'w \<Rightarrow> (exn + number \<times> string) \<times> 'w" where
  "audit_url env url w =
     (case url of
        JStr u \<Rightarrow>
          (let jsonFile = path_join env (outputDir env) (filename_of u @ ''.json'') in
           case runLighthouse env u jsonFile w of
             (Inl e, w1) \<Rightarrow> (Inl e, w1)
           | (Inr finished, w1) \<Rightarrow>
               (case read_report env jsonFile w1 of
                  (None, w2) \<Rightarrow> (Inl ReadError, w2)
                | (Some report, w2) \<Rightarrow> (summarize env report, w2)))
      | _ \<Rightarrow> (Inl TypeError, w))"

text \<open>\<open>{ url, score, issues: issuesText, aiFixes: aiFixes }\<close>.\<close>

definition result_record :: "json \<Rightarrow> number \<Rightarrow> string \<Rightarrow> string \<Rightarrow> json" where
  "result_record url score issuesText aiFixes =
     JObj [(''url'', url), (''score'', JNum score), (''issues'', JStr issuesText),
           (''aiFixes'', JStr aiFixes)]"

definition process_url ::
  "'w env \<Rightarrow> json option \<Rightarrow> json \<Rightarrow> 'w \<Rightarrow> (exn + json) \<times> 'w" where
  "process_url env apiKey url w =
     (case audit_url env url w of
        (Inl e, w1) \<Rightarrow> (Inl e, w1)
      | (Inr (score, issuesText), w1) \<Rightarrow>
          (case analyzeWithAI env issuesText apiKey w1 of
             (aiFixes, w2) \<Rightarrow> (Inr (result_record url score issuesText aiFixes), w2)))"

text \<open>\<open>for (const url of urls)\<close>: an exception leaves the loop and the handler.\<close>

fun audit_loop ::
  "'w env \<Rightarrow> json option \<Rightarrow> json list \<Rightarrow> json list \<Rightarrow> 'w \<Rightarrow> (exn + json list) \<times> 'w" where
  "audit_loop env apiKey [] results w = (Inr results, w)"
| "audit_loop env apiKey (url # urls) results w =
     (case process_url env apiKey url w of
        (Inl e, w1) \<Rightarrow> (Inl e, w1)
      | (Inr r, w1) \<Rightarrow> audit_loop env apiKey urls (results @ [r]) w1)"

text \<open>What \<open>for ... of\<close> goes through: the elements of an array, the characters of a
  string; nothing else here can be iterated.\<close>

definition for_of :: "json option \<Rightarrow> exn + json list" where
  "for_of v =
     (case v of
        Some (JArr xs) \<Rightarrow> Inr xs
      | Some (JStr s) \<Rightarrow> Inr (map (\<lambda>c. JStr [c]) s)
      | _ \<Rightarrow> Inl TypeError)"

section \<open>The handler of \<open>POST /runaudit\<close>\<close>

record request =
  http_method :: string
  body :: "json option"

text \<open>What a request ends in: a response with its status and JSON payload, or an
  exception nobody catches, and no response.\<close>

datatype outcome =
    Respond nat json
  | Unhandled exn

definition testInputs :: json where
  "testInputs =
     JObj [(''urls'', JArr
       [JStr ''https://workspace.google.com/intl/en_au/lp/gmail-au/index.html'',
        JStr ''https://workspace.google.com/intl/en_in/lp/gmail-in/index.html'',
        JStr ''https://workspace.google.com/intl/es_ALL/''])]"

text \<open>\<open>const { urls, apiKey } = req.body || testInputs\<close>.\<close>

definition request_fields :: "request \<Rightarrow> exn + json option \<times> json option" where
  "request_fields req =
     (let src = (if truthy (body req) then body req else Some testInputs) in
      and_then (get_prop src ''urls'') (\<lambda>urls.
      and_then (get_prop src ''apiKey'') (\<lambda>apiKey. Inr (urls, apiKey))))"

definition urls_error :: json where
  "urls_error = JObj [(''error'', JStr ''Invalid input: urls'')]"

definition apiKey_error :: json where
  "apiKey_error = JObj [(''error'', JStr ''Invalid input: apiKey is required'')]"

definition post_runaudit :: "'w env \<Rightarrow> request \<Rightarrow> 'w \<Rightarrow> outcome \<times> 'w" where
  "post_runaudit env req w =
     (if http_method req \<noteq> ''POST'' then
        (Respond 405 (JObj [(''error'', JStr ''Method not allowed'')]), w)
      else
        (case request_fields req of
           Inl e \<Rightarrow> (Unhandled e, w)
         | Inr (urls, apiKey) \<Rightarrow>
             if \<not> truthy urls \<or> \<not> isArray urls then (Respond 400 urls_error, w)
             else if \<not> truthy apiKey then (Respond 400 apiKey_error, w)
             else
               (case for_of urls of
                  Inl e \<Rightarrow> (Unhandled e, w)
                | Inr us \<Rightarrow>
                    (case audit_loop env apiKey us [] w of
                       (Inl e, w1) \<Rightarrow> (Unhandled e, w1)
                     | (Inr results, w1) \<Rightarrow>
                         (Respond 200 (JObj [(''results'', JArr results)]), w1)))))"

section \<open>A sample world\<close>

text \<open>
  A report, an answer of the generation endpoint and a world to run the program in:
  every audit succeeds and leaves \<open>sample_report\<close>, every generation succeeds, and the
  state counts the calls made. The category score of the report is the double that
  the text \<open>0.9\<close> denotes. The conversions between numbers and text are stand-ins; no
  example below runs them on a value that would show it.
\<close>

definition sample_audits :: "(string \<times> json) list" where
  "sample_audits =
     [(''image-alt'', JObj
         [(''id'', JStr ''image-alt''),
          (''title'', JStr ''Image elements must have alternate text''),
          (''description'', JStr ''Informative elements need alternate text.''),
          (''score'', JNum (Finite 0)),
          (''details'', JObj [(''items'', JArr
             [JObj [(''node'', JObj [(''snippet'', JStr ''<img src=logo.png>'')])]])])]),
      (''color-contrast'', JObj
         [(''id'', JStr ''color-contrast''),
          (''title'', JStr ''Colors have sufficient contrast''),
          (''score'', JNum (Finite 1))]),
      (''bypass'', JObj
         [(''id'', JStr ''bypass''),
          (''title'', JStr ''The page has a skip link''),
          (''score'', JNull)]),
      (''target-size'', JObj
         [(''id'', JStr ''target-size''),
          (''title'', JStr ''Touch targets have sufficient size''),
          (''score'', JNum (Finite (1 / 2)))]),
      (''html-has-lang'', JObj
         [(''id'', JStr ''html-has-lang''),
          (''title'', JStr ''The html element has a lang attribute''),
          (''score'', JNum (Finite 0))])]"

definition sample_report :: json where
  "sample_report =
     JObj [(''categories'', JObj [(''accessibility'', JObj [(''score'', JNum (round_double (9 / 10)))])]),
           (''audits'', JObj sample_audits)]"

text \<open>The issues of \<open>sample_report\<close>: its first and its last check.\<close>

definition sample_issues :: "'w env \<Rightarrow> issue list" where
  "sample_issues env =
     [\<lparr>issue_id = Some (JStr ''image-alt''),
       issue_title = Some (JStr ''Image elements must have alternate text''),
       issue_description = Some (JStr ''Informative elements need alternate text.''),
       issue_details = JArr [JStr (JSON_stringify env
         (JObj [(''node'', JObj [(''snippet'', JStr ''<img src=logo.png>'')])]))]\<rparr>,
      \<lparr>issue_id = Some (JStr ''html-has-lang''),
       issue_title = Some (JStr ''The html element has a lang attribute''),
       issue_description = None,
       issue_details = JArr []\<rparr>]"

definition sample_answer :: "string \<Rightarrow> json" where
  "sample_answer t =
     JObj [(''candidates'', JArr [JObj [(''content'', JObj [(''parts'', JArr [JObj [(''text'', JStr t)]])])]])]"

definition sample_env :: "nat env" where
  "sample_env =
     \<lparr>exec = (\<lambda>cmd w. (True, Suc w)),
      read_report = (\<lambda>path w. (Some sample_report, Suc w)),
      fetch = (\<lambda>url body w. (Response True ''OK'' (Some (sample_answer ''<div>fix</div>'')), Suc w)),
      path_join = (\<lambda>dir file. dir @ ''/'' @ file),
      rootPath = ''/app/'',
      NumberToString = (\<lambda>r. ''0''),
      StringToNumber = (\<lambda>s. NaN),
      JSON_stringify = (\<lambda>v. ''{}'')\<rparr>"

text \<open>The text the issues of \<open>sample_report\<close> are rendered to.\<close>

definition sample_text :: string where
  "sample_text =
     ''[1]: Image elements must have alternate text - Informative elements need alternate text.''
     @ ''\<newline>\<newline>''
     @ ''[2]: The html element has a lang attribute - No description''"

text \<open>The same world with another generation endpoint: one that answers with the
  JSON value \<open>data\<close>, one that answers with the text \<open>t\<close>, one that refuses every call
  with a non-success status, one that cannot be reached.\<close>

definition replying_env :: "json \<Rightarrow> nat env" where
  "replying_env data =
     sample_env\<lparr>fetch := (\<lambda>url body w. (Response True ''OK'' (Some data), Suc w))\<rparr>"

definition answering_env :: "string \<Rightarrow> nat env" where
  "answering_env t = replying_env (sample_answer t)"

definition refusing_env :: "nat env" where
  "refusing_env =
     sample_env\<lparr>fetch := (\<lambda>url body w.
       (Response False ''Forbidden''
          (Some (JObj [(''error'', JObj [(''message'', JStr ''API key not valid'')])])),
        Suc w))\<rparr>"

definition offline_env :: "nat env" where
  "offline_env = sample_env\<lparr>fetch := (\<lambda>url body w. (Rejected, Suc w))\<rparr>"

text \<open>A world with two report files: the one the audit of \<open>https://a.example/x\<close> is
  read from holds \<open>sample_report\<close>, the one of \<open>http://b.example\<close> holds a report with a
  category score of 0.5 and no failing check; no other file exists.\<close>

definition clean_report :: json where
  "clean_report =
     JObj [(''categories'', JObj [(''accessibility'', JObj [(''score'', JNum (Finite (1 / 2)))])]),
           (''audits'', JObj
             [(''image-alt'', JObj
                 [(''id'', JStr ''image-alt''),
                  (''title'', JStr ''Image elements have alternate text''),
                  (''score'', JNum (Finite 1))])])]"

definition two_sites_env :: "nat env" where
  "two_sites_env =
     sample_env\<lparr>read_report := (\<lambda>path w.
       (if path = ''/app/public/lighthouse-reports/a.example_x.json'' then Some sample_report
        else if path = ''/app/public/lighthouse-reports/b.example.json'' then Some clean_report
        else None,
        Suc w))\<rparr>"

section \<open>Facts about the model\<close>

subsection \<open>Sequencing\<close>

lemma and_then_Inl [simp]: "and_then (Inl e) f = Inl e"
  by (simp add: and_then_def)

lemma and_then_Inr [simp]: "and_then (Inr x) f = f x"
  by (simp add: and_then_def)

lemma and_then_eq_Inr: "(and_then m f = Inr y) = (\<exists>x. m = Inr x \<and> f x = Inr y)"
  by (cases m) simp_all

subsection \<open>Doubles\<close>

lemma floor_rat_numeral_div [simp]:
  "\<lfloor>numeral a / numeral b :: rat\<rfloor> = numeral a div numeral b"
  by (metis floor_divide_of_int_eq of_int_numeral)

lemma ceiling_rat_numeral_div [simp]:
  "\<lceil>numeral a / numeral b :: rat\<rceil> = - (- numeral a div numeral b)"
  using ceiling_divide_eq_div [of "numeral a" "numeral b", where ?'a = rat] by simp

lemmas double_defs =
  round_double_def exponent_of_def bits.simps pow2_def round_ties_even_def Let_def

lemma round_double_not_NaN: "round_double x \<noteq> NaN"
  by (simp add: round_double_def Let_def)

text \<open>The doubles that the texts \<open>0.76\<close>, \<open>0.57\<close> and \<open>0.9\<close> denote, and their products
  with 100.\<close>

lemma double_076: "round_double (76 / 100) = Finite (3422735716801577 / 4503599627370496)"
  by (simp add: double_defs)

lemma double_076_times_100: "multiply (round_double (76 / 100)) (Finite 100) = Finite 76"
  by (simp add: multiply_def double_defs)

lemma double_057: "round_double (57 / 100) = Finite (5134103575202365 / 9007199254740992)"
  by (simp add: double_defs)

lemma double_057_times_100:
  "multiply (Finite (5134103575202365 / 9007199254740992)) (Finite 100)
     = Finite (8022036836253695 / 140737488355328)"
  by (simp add: multiply_def double_defs)

text \<open>Overflow: the double that \<open>1e308\<close> denotes, times 100, is an infinity.\<close>

lemma double_overflow: "multiply (round_double (10 ^ 308)) (Finite 100) = PosInfinity"
  by (simp add: multiply_def double_defs)

lemma double_09: "round_double (9 / 10) = Finite (8106479329266893 / 9007199254740992)"
  by (simp add: double_defs)

lemma double_09_times_100: "multiply (round_double (9 / 10)) (Finite 100) = Finite 90"
  by (simp add: multiply_def double_defs)

lemma bits_mono: "m \<le> n \<Longrightarrow> bits m \<le> bits n"
proof (induction n arbitrary: m rule: bits.induct)
  case (1 n)
  show ?case
  proof (cases "m = 0")
    case True
    then show ?thesis by (simp add: bits.simps)
  next
    case False
    with "1.prems" have n: "n \<noteq> 0" by simp
    from "1.prems" have "m div 2 \<le> n div 2" by (rule div_le_mono)
    from "1.IH" [OF n this] False n show ?thesis
      by (simp add: bits.simps [of m] bits.simps [of n])
  qed
qed

lemma exponent_of_le:
  assumes "0 < x" and "x \<le> 100"
  shows "exponent_of x \<le> 6"
proof (cases "1 \<le> x")
  case True
  from assms(2) have "\<lfloor>x\<rfloor> \<le> \<lfloor>100 :: rat\<rfloor>" by (rule floor_mono)
  then have "nat \<lfloor>x\<rfloor> \<le> nat \<lfloor>100 :: rat\<rfloor>" by (rule nat_mono)
  then have "nat \<lfloor>x\<rfloor> \<le> 100" by (simp only: floor_numeral nat_numeral)
  from bits_mono [OF this] have "bits (nat \<lfloor>x\<rfloor>) \<le> 7"
    by (simp add: bits.simps)
  with True show ?thesis by (simp add: exponent_of_def)
next
  case False
  then show ?thesis by (simp add: exponent_of_def)
qed

lemma round_ties_even_nonneg: "0 \<le> y \<Longrightarrow> 0 \<le> round_ties_even y"
  by (auto simp: round_ties_even_def Let_def)

lemma round_ties_even_le:
  assumes "y \<le> of_int N"
  shows "round_ties_even y \<le> N"
proof -
  from assms have f: "\<lfloor>y\<rfloor> \<le> N" by (simp add: floor_le_iff)
  show ?thesis
  proof (cases "y - of_int \<lfloor>y\<rfloor> < 1 / 2")
    case True
    with f show ?thesis by (simp add: round_ties_even_def Let_def)
  next
    case False
    then have "of_int \<lfloor>y\<rfloor> < y" by simp
    with assms have "(of_int \<lfloor>y\<rfloor> :: rat) < of_int N" by simp
    then have "\<lfloor>y\<rfloor> + 1 \<le> N" by simp
    with f show ?thesis by (simp add: round_ties_even_def Let_def)
  qed
qed

lemma round_double_bounds:
  assumes "0 \<le> x" and "x \<le> 100"
  shows "\<exists>r. round_double x = Finite r \<and> 0 \<le> r \<and> r \<le> 100"
proof (cases "x = 0")
  case True
  then show ?thesis by (simp add: round_double_def)
next
  case False
  with assms(1) have pos: "0 < x" by simp
  define e where "e = max (exponent_of x) (- 1022)"
  define k where "k = nat (52 - e)"
  define n where "n = round_ties_even (x / pow2 (e - 52))"
  have rd: "round_double x =
      (if pow2 1024 \<le> of_int n * pow2 (e - 52) then PosInfinity
       else Finite (of_int n * pow2 (e - 52)))"
    using pos by (simp add: round_double_def Let_def e_def n_def)
  from pos assms(2) have "exponent_of x \<le> 6"
    by (rule exponent_of_le)
  then have "e \<le> 6" by (simp add: e_def)
  then have q: "pow2 (e - 52) = 1 / 2 ^ k"
    by (simp add: pow2_def k_def)
  have "x / pow2 (e - 52) = x * 2 ^ k"
    by (simp add: q)
  also have "\<dots> \<le> 100 * 2 ^ k"
    using assms by simp
  also have "\<dots> = of_int (100 * 2 ^ k)" by simp
  finally have "n \<le> 100 * 2 ^ k"
    unfolding n_def by (rule round_ties_even_le)
  then have "(of_int n :: rat) \<le> of_int (100 * 2 ^ k)"
    by (simp only: of_int_le_iff)
  then have up: "of_int n * pow2 (e - 52) \<le> 100"
    by (simp add: q field_simps)
  have "0 \<le> x / pow2 (e - 52)"
    using pos by (simp add: q)
  then have "0 \<le> n"
    unfolding n_def by (rule round_ties_even_nonneg)
  then have lo: "0 \<le> of_int n * pow2 (e - 52)"
    by (simp add: q)
  have "(100 :: rat) < 2 ^ 7" by simp
  also have "\<dots> \<le> 2 ^ 1024" by (rule power_increasing) simp_all
  finally have "(100 :: rat) < pow2 1024" by (simp add: pow2_def)
  with up have "\<not> pow2 1024 \<le> of_int n * pow2 (e - 52)" by simp
  with rd have "round_double x = Finite (of_int n * pow2 (e - 52))" by simp
  with lo up show ?thesis by blast
qed

subsection \<open>The issues of a report\<close>

lemma filter_failing_Inr:
  "filter_failing checks = Inr kept \<Longrightarrow>
   kept = filter (\<lambda>a. get_prop (Some a) ''score'' = Inr (Some (JNum (Finite 0)))) checks"
proof (induction checks arbitrary: kept)
  case Nil
  then show ?case by simp
next
  case (Cons a checks)
  then show ?case
    by (auto simp: and_then_eq_Inr)
qed

lemma get_prop_defined: "a \<noteq> JNull \<Longrightarrow> \<exists>v. get_prop (Some a) k = Inr v"
  by (cases a) (simp_all add: get_prop_def)

lemma filter_failing_total:
  "JNull \<notin> set checks \<Longrightarrow> \<exists>kept. filter_failing checks = Inr kept"
proof (induction checks)
  case Nil
  then show ?case by simp
next
  case (Cons a checks)
  then obtain kept where k: "filter_failing checks = Inr kept" by auto
  from Cons.prems have "a \<noteq> JNull" by auto
  then obtain v where "get_prop (Some a) ''score'' = Inr v"
    using get_prop_defined by blast
  with k show ?case by simp
qed

lemma map_stringify_array:
  "map_stringify env items = Inr ds \<Longrightarrow> \<exists>ss. ds = JArr ss"
  by (auto simp: map_stringify_def split: option.splits json.splits)

lemma detail_strings_array:
  "detail_strings env a = Inr ds \<Longrightarrow> \<exists>ss. ds = JArr ss"
  by (auto simp: detail_strings_def and_then_eq_Inr split: if_splits
      dest: map_stringify_array)

lemma make_issue_details:
  "make_issue env a = Inr x \<Longrightarrow> \<exists>ss. issue_details x = JArr ss"
  by (auto simp: make_issue_def and_then_eq_Inr dest: detail_strings_array)

lemma details_block_never_rendered:
  "make_issue env a = Inr x \<Longrightarrow> render_details env x = Inr []"
proof -
  assume "make_issue env a = Inr x"
  then obtain ss where "issue_details x = JArr ss"
    using make_issue_details by blast
  then show ?thesis
    by (simp add: render_details_def opt_prop_def get_prop_def nullish_def truthy_def)
qed

lemma map_issues_length: "map_issues env as = Inr xs \<Longrightarrow> length xs = length as"
  by (induction as arbitrary: xs) (auto simp: and_then_eq_Inr)

lemma map_issues_nth:
  "map_issues env as = Inr xs \<Longrightarrow> i < length as \<Longrightarrow> make_issue env (as ! i) = Inr (xs ! i)"
proof (induction as arbitrary: xs i)
  case Nil
  then show ?case by simp
next
  case (Cons a as)
  then show ?case
    by (cases i) (auto simp: and_then_eq_Inr)
qed

lemma render_issue_prefix:
  "render_issue env i x = Inr b \<Longrightarrow> prefix (''['' @ show_nat (i + 1) @ '']: '') b"
  by (auto simp: render_issue_def and_then_eq_Inr prefix_def)

lemma render_issues_length:
  "render_issues env i xs = Inr bs \<Longrightarrow> length bs = length xs"
  by (induction xs arbitrary: bs i) (auto simp: and_then_eq_Inr)

lemma render_issues_nth:
  "render_issues env i xs = Inr bs \<Longrightarrow> j < length xs \<Longrightarrow>
   render_issue env (i + j) (xs ! j) = Inr (bs ! j)"
proof (induction xs arbitrary: bs i j)
  case Nil
  then show ?case by simp
next
  case (Cons x xs)
  from Cons.prems obtain b rest where
    b: "render_issue env i x = Inr b" and
    r: "render_issues env (Suc i) xs = Inr rest" and
    bs: "bs = b # rest"
    by (auto simp: and_then_eq_Inr)
  show ?case
  proof (cases j)
    case 0
    with b bs show ?thesis by simp
  next
    case (Suc n)
    with Cons.prems have "n < length xs" by simp
    from Cons.IH [OF r this] Suc bs show ?thesis by simp
  qed
qed

subsection \<open>The loop over the URLs\<close>

lemma process_url_Inr:
  "process_url env k url w = (Inr r, w') \<Longrightarrow>
   \<exists>score txt w1. audit_url env url w = (Inr (score, txt), w1)
      \<and> r = result_record url score txt (fst (analyzeWithAI env txt k w1))"
  by (auto simp: process_url_def split: prod.splits sum.splits)

lemma process_url_Inl:
  "process_url env k url w = (Inl e, w') \<Longrightarrow> audit_url env url w = (Inl e, w')"
  by (auto simp: process_url_def split: prod.splits sum.splits)

lemma audit_loop_Inr:
  "audit_loop env k urls acc w = (Inr rs, w') \<Longrightarrow>
   \<exists>rest. rs = acc @ rest
      \<and> list_all2 (\<lambda>u r. \<exists>score txt ai. r = result_record u score txt ai) urls rest"
proof (induction urls arbitrary: acc w)
  case Nil
  then show ?case by simp
next
  case (Cons u urls)
  from Cons.prems obtain r w1 where
    p: "process_url env k u w = (Inr r, w1)" and
    l: "audit_loop env k urls (acc @ [r]) w1 = (Inr rs, w')"
    by (auto split: prod.splits sum.splits)
  from Cons.IH [OF l] obtain rest where
    rs: "rs = (acc @ [r]) @ rest" and
    all: "list_all2 (\<lambda>u r. \<exists>score txt ai. r = result_record u score txt ai) urls rest"
    by blast
  from p obtain score itext ai where "r = result_record u score itext ai"
    using process_url_Inr [OF p] by blast
  with rs all show ?case
    by (intro exI [of _ "r # rest"]) auto
qed

lemma audit_loop_Inl:
  "audit_loop env k urls acc w = (Inl e, w') \<Longrightarrow>
   \<exists>u \<in> set urls. \<exists>w0 w1. audit_url env u w0 = (Inl e, w1)"
proof (induction urls arbitrary: acc w)
  case Nil
  then show ?case by simp
next
  case (Cons u urls)
  show ?case
  proof (cases "process_url env k u w")
    case (Pair res w1)
    show ?thesis
    proof (cases res)
      case (Inl e')
      with Pair Cons.prems have "process_url env k u w = (Inl e, w')" by auto
      then have "audit_url env u w = (Inl e, w')"
        by (rule process_url_Inl)
      then show ?thesis by auto
    next
      case (Inr r)
      with Pair Cons.prems have "audit_loop env k urls (acc @ [r]) w1 = (Inl e, w')"
        by simp
      from Cons.IH [OF this] show ?thesis by auto
    qed
  qed
qed

subsection \<open>The fields of a request\<close>

lemma truthy_defined: "truthy v \<Longrightarrow> \<exists>x. v = Some x \<and> x \<noteq> JNull"
  by (auto simp: truthy_def split: option.splits json.splits)

lemma request_fields_total: "\<exists>urls apiKey. request_fields req = Inr (urls, apiKey)"
proof -
  define src where "src = (if truthy (body req) then body req else Some testInputs)"
  have "truthy src"
    by (simp add: src_def truthy_def testInputs_def)
  then obtain v where "src = Some v" "v \<noteq> JNull"
    using truthy_defined by blast
  then obtain urls apiKey where
    "get_prop src ''urls'' = Inr urls" "get_prop src ''apiKey'' = Inr apiKey"
    using get_prop_defined by metis
  then show ?thesis
    by (simp add: request_fields_def src_def)
qed

lemma request_fields_body:
  "truthy (Some b) \<Longrightarrow>
   request_fields \<lparr>http_method = m, body = Some b\<rparr>
     = Inr (opt_prop (Some b) ''urls'', opt_prop (Some b) ''apiKey'')"
  by (cases b) (simp_all add: request_fields_def get_prop_def opt_prop_def nullish_def truthy_def)

lemma request_fields_absent:
  "request_fields \<lparr>http_method = m, body = None\<rparr>
     = Inr (Some (JArr
         [JStr ''https://workspace.google.com/intl/en_au/lp/gmail-au/index.html'',
          JStr ''https://workspace.google.com/intl/en_in/lp/gmail-in/index.html'',
          JStr ''https://workspace.google.com/intl/es_ALL/'']), None)"
  by (simp add: request_fields_def get_prop_def truthy_def testInputs_def)

subsection \<open>The sample world, run\<close>

lemma extract_issues_sample: "extract_issues env sample_report = Inr (sample_issues env)"
  by (simp add: extract_issues_def sample_report_def sample_audits_def sample_issues_def
      get_prop_def opt_prop_def nullish_def object_values_def AList.delete_eq make_issue_def
      detail_strings_def map_stringify_def)

lemma render_issues_sample:
  "render_issues env 0 (sample_issues env) =
     Inr [''[1]: Image elements must have alternate text - Informative elements need alternate text.'',
          ''[2]: The html element has a lang attribute - No description'']"
  by (simp add: sample_issues_def render_issue_def render_details_def or_else_def truthy_def
      opt_prop_def get_prop_def nullish_def show_nat.simps)

lemma issues_text_sample: "issues_text env (sample_issues env) = Inr sample_text"
  by (simp add: issues_text_def render_issues_sample sample_text_def)

lemma score_of_sample: "score_of env sample_report = Inr (Finite 90)"
  by (simp add: score_of_def sample_report_def get_prop_def opt_prop_def nullish_def
      to_number_def double_09_times_100 truthy_def)

lemma summarize_sample: "summarize env sample_report = Inr (Finite 90, sample_text)"
  by (simp add: summarize_def score_of_sample extract_issues_sample issues_text_sample)

lemma audit_url_sample:
  "audit_url sample_env (JStr u) w = (Inr (Finite 90, sample_text), Suc (Suc w))"
  by (simp add: audit_url_def runLighthouse_def sample_env_def summarize_sample)

lemma first_text_sample: "first_text (sample_answer t) = Inr (Some (JStr t))"
  by (simp add: first_text_def sample_answer_def get_prop_def get_first_def opt_prop_def
      nullish_def)

lemma analyze_sample:
  "analyzeWithAI sample_env issues (Some (JStr k)) w = (''<div>fix</div>'', Suc w)"
  by (simp add: analyzeWithAI_def analyze_try_def to_string_opt_def sample_env_def
      first_text_sample strip_result_def or_else_def truthy_def)

lemma process_url_sample:
  "process_url sample_env (Some (JStr k)) (JStr u) w
     = (Inr (result_record (JStr u) (Finite 90) sample_text ''<div>fix</div>''), Suc (Suc (Suc w)))"
  by (simp add: process_url_def audit_url_sample analyze_sample)

lemma post_runaudit_sample:
  "post_runaudit sample_env
     \<lparr>http_method = ''POST'',
      body = Some (JObj [(''urls'', JArr [JStr ''https://a.example/x'', JStr ''http://b.example'']),
                         (''apiKey'', JStr ''k'')])\<rparr> 0
   = (Respond 200 (JObj [(''results'', JArr
        [result_record (JStr ''https://a.example/x'') (Finite 90) sample_text ''<div>fix</div>'',
         result_record (JStr ''http://b.example'') (Finite 90) sample_text ''<div>fix</div>''])]), 6)"
  by (simp add: post_runaudit_def request_fields_def get_prop_def truthy_def isArray_def
      for_of_def process_url_sample)

subsection \<open>What a result record is made of\<close>

lemma audit_url_Inr:
  "audit_url env url w = (Inr (score, itext), w1) \<Longrightarrow>
   \<exists>u report w0. url = JStr u
      \<and> runLighthouse env u (path_join env (outputDir env) (filename_of u @ ''.json'')) w
          = (Inr (), w0)
      \<and> read_report env (path_join env (outputDir env) (filename_of u @ ''.json'')) w0
          = (Some report, w1)
      \<and> summarize env report = Inr (score, itext)"
  by (cases url)
     (auto simp: audit_url_def Let_def split: prod.splits sum.splits option.splits)

lemma summarize_Inr:
  "summarize env report = Inr (score, itext) \<Longrightarrow>
   score_of env report = Inr score
   \<and> (\<exists>issues. extract_issues env report = Inr issues \<and> issues_text env issues = Inr itext)"
  by (auto simp: summarize_def and_then_eq_Inr)

subsection \<open>When the issues of a report are produced\<close>

lemma detail_strings_total:
  assumes "a \<noteq> JNull"
    and "nullish (opt_prop (opt_prop (Some a) ''details'') ''items'')
         \<or> isArray (opt_prop (opt_prop (Some a) ''details'') ''items'')"
  shows "\<exists>ds. detail_strings env a = Inr ds"
proof -
  from assms(1) obtain d where d: "get_prop (Some a) ''details'' = Inr d"
    using get_prop_defined by blast
  with assms(1) have od: "opt_prop (Some a) ''details'' = d"
    by (simp add: opt_prop_def nullish_def)
  show ?thesis
  proof (cases "nullish d")
    case True
    with d show ?thesis by (simp add: detail_strings_def)
  next
    case False
    then obtain dv where dv: "d = Some dv" "dv \<noteq> JNull"
      by (auto simp: nullish_def)
    then obtain it where it: "get_prop d ''items'' = Inr it"
      using get_prop_defined by blast
    with False have oi: "opt_prop d ''items'' = it"
      by (simp add: opt_prop_def)
    show ?thesis
    proof (cases "nullish it")
      case True
      with d False it show ?thesis by (simp add: detail_strings_def)
    next
      case nn: False
      with assms(2) od oi have "isArray it" by simp
      then obtain xs where "it = Some (JArr xs)"
        by (auto simp: isArray_def split: option.splits json.splits)
      with d False it nn show ?thesis
        by (simp add: detail_strings_def map_stringify_def)
    qed
  qed
qed

lemma make_issue_total:
  assumes "a \<noteq> JNull"
    and "nullish (opt_prop (opt_prop (Some a) ''details'') ''items'')
         \<or> isArray (opt_prop (opt_prop (Some a) ''details'') ''items'')"
  shows "\<exists>x. make_issue env a = Inr x"
proof -
  from assms(1) obtain i t d where
    "get_prop (Some a) ''id'' = Inr i" "get_prop (Some a) ''title'' = Inr t"
    "get_prop (Some a) ''description'' = Inr d"
    using get_prop_defined by metis
  moreover from detail_strings_total [OF assms] obtain ds where
    "detail_strings env a = Inr ds" by blast
  ultimately show ?thesis by (simp add: make_issue_def)
qed

lemma map_issues_total:
  assumes "\<forall>a \<in> set as. a \<noteq> JNull
             \<and> (nullish (opt_prop (opt_prop (Some a) ''details'') ''items'')
                \<or> isArray (opt_prop (opt_prop (Some a) ''details'') ''items''))"
  shows "\<exists>xs. map_issues env as = Inr xs"
  using assms
proof (induction as)
  case Nil
  then show ?case by simp
next
  case (Cons a as)
  then obtain xs where xs: "map_issues env as = Inr xs" by auto
  from Cons.prems obtain x where "make_issue env a = Inr x"
    using make_issue_total [of a env] by auto
  with xs show ?case by simp
qed

subsection \<open>The ways through \<open>analyzeWithAI\<close>\<close>

lemma analyze_caught:
  "analyze_try env issues apiKey w = (Inl e, w1) \<Longrightarrow>
   analyzeWithAI env issues apiKey w = (failure_text, w1)"
  by (simp add: analyzeWithAI_def)

lemma api_error_thrown: "\<exists>e. and_then m (\<lambda>x. and_then (g x) (\<lambda>y. Inl ApiError)) = Inl e"
proof (cases m)
  case (Inl e)
  then show ?thesis by simp
next
  case (Inr x)
  then show ?thesis by (cases "g x") simp_all
qed

lemma analyze_not_ok:
  assumes "to_string_opt env apiKey = Inr key"
    and "fetch env (endpoint @ key) (request_body (prompt_head @ issues @ prompt_tail)) w
           = (Response False st b, w1)"
  shows "analyzeWithAI env issues apiKey w = (failure_text, w1)"
proof (cases b)
  case None
  with assms show ?thesis
    by (simp add: analyzeWithAI_def analyze_try_def)
next
  case (Some errorData)
  obtain e where
    "and_then (get_prop (Some errorData) ''error'') (\<lambda>err.
       and_then (to_string env (or_else (opt_prop err ''message'') (JStr st)))
         (\<lambda>msg. Inl ApiError)) = (Inl e :: exn + string)"
    using api_error_thrown [of "get_prop (Some errorData) ''error''"
        "\<lambda>err. to_string env (or_else (opt_prop err ''message'') (JStr st))"]
    by blast
  with Some assms show ?thesis
    by (simp add: analyzeWithAI_def analyze_try_def)
qed

lemma analyze_rejected:
  assumes "to_string_opt env apiKey = Inr key"
    and "fetch env (endpoint @ key) (request_body (prompt_head @ issues @ prompt_tail)) w
           = (Rejected, w1)"
  shows "analyzeWithAI env issues apiKey w = (failure_text, w1)"
  using assms by (simp add: analyzeWithAI_def analyze_try_def)

lemma analyze_try_ok:
  assumes "to_string_opt env apiKey = Inr key"
    and "fetch env (endpoint @ key) (request_body (prompt_head @ issues @ prompt_tail)) w
           = (Response True st (Some data), w1)"
  shows "analyze_try env issues apiKey w = (and_then (first_text data) strip_result, w1)"
  using assms by (simp add: analyze_try_def)

lemma replace_fences_failure_text: "replace_fences failure_text = failure_text"
  by (simp add: failure_text_def)

lemma strip_result_falsy: "\<not> truthy t \<Longrightarrow> strip_result t = Inr failure_text"
  by (cases t) (simp_all add: strip_result_def or_else_def replace_fences_failure_text)

lemma strip_result_text: "t \<noteq> [] \<Longrightarrow> strip_result (Some (JStr t)) = Inr (replace_fences t)"
  by (simp add: strip_result_def or_else_def truthy_def)

subsection \<open>Code-fence markers\<close>

lemma replace_fences_other:
  "CHR ''`'' \<noteq> c \<Longrightarrow> replace_fences (c # cs) = c # replace_fences cs"
  by auto

lemma replace_fences_plain: "CHR ''`'' \<notin> set a \<Longrightarrow> replace_fences (a @ r) = a @ replace_fences r"
  by (induction a) (simp_all del: replace_fences.simps add: replace_fences_other)

lemma replace_fences_clean: "CHR ''`'' \<notin> set a \<Longrightarrow> replace_fences a = a"
  using replace_fences_plain [of a "[]"] by simp

lemma replace_fences_html: "replace_fences (''```html'' @ b) = replace_fences b"
  by simp

lemma replace_fences_bare:
  "replace_fences (''```'' @ b) = replace_fences (if prefix ''html'' b then drop 4 b else b)"
  by (auto simp: prefix_def)

subsection \<open>When the batch completes\<close>

lemma audit_loop_total:
  assumes "\<forall>u \<in> set urls. \<forall>w0. \<exists>r w1. audit_url env u w0 = (Inr r, w1)"
  shows "\<exists>rs w'. audit_loop env apiKey urls acc w = (Inr rs, w')
                \<and> length rs = length acc + length urls"
proof (cases "audit_loop env apiKey urls acc w")
  case (Pair res w')
  show ?thesis
  proof (cases res)
    case (Inl e)
    with Pair have "audit_loop env apiKey urls acc w = (Inl e, w')" by simp
    from audit_loop_Inl [OF this] obtain u w0 w1 where
      "u \<in> set urls" "audit_url env u w0 = (Inl e, w1)"
      by blast
    moreover from assms \<open>u \<in> set urls\<close> obtain r w2 where
      "audit_url env u w0 = (Inr r, w2)"
      by blast
    ultimately have False by simp
    then show ?thesis ..
  next
    case (Inr rs)
    with Pair have l: "audit_loop env apiKey urls acc w = (Inr rs, w')" by simp
    from audit_loop_Inr [OF l] have "length rs = length acc + length urls"
      by (auto dest: list_all2_lengthD)
    with l show ?thesis by blast
  qed
qed

subsection \<open>The other sample worlds, run\<close>

lemma analyze_answering:
  "analyzeWithAI (answering_env t) issues (Some (JStr k)) w
     = (if t = [] then failure_text else replace_fences t, Suc w)"
  by (simp add: analyzeWithAI_def analyze_try_def to_string_opt_def answering_env_def
      replying_env_def sample_env_def first_text_sample strip_result_falsy strip_result_text
      truthy_def)

lemma analyze_refusing:
  "analyzeWithAI refusing_env issues (Some (JStr k)) w = (failure_text, Suc w)"
  by (simp add: analyzeWithAI_def analyze_try_def to_string_opt_def refusing_env_def
      sample_env_def get_prop_def opt_prop_def nullish_def or_else_def truthy_def)

lemma analyze_offline:
  "analyzeWithAI offline_env issues (Some (JStr k)) w = (failure_text, Suc w)"
  by (simp add: analyzeWithAI_def analyze_try_def to_string_opt_def offline_env_def
      sample_env_def)

lemma audit_url_refusing:
  "audit_url refusing_env (JStr u) w = (Inr (Finite 90, sample_text), Suc (Suc w))"
  by (simp add: audit_url_def runLighthouse_def refusing_env_def sample_env_def
      summarize_sample)

lemma post_runaudit_refusing:
  "post_runaudit refusing_env
     \<lparr>http_method = ''POST'',
      body = Some (JObj [(''urls'', JArr [JStr ''https://a.example/x'', JStr ''http://b.example'']),
                         (''apiKey'', JStr ''k'')])\<rparr> 0
   = (Respond 200 (JObj [(''results'', JArr
        [result_record (JStr ''https://a.example/x'') (Finite 90) sample_text failure_text,
         result_record (JStr ''http://b.example'') (Finite 90) sample_text failure_text])]), 6)"
  by (simp add: post_runaudit_def request_fields_def get_prop_def truthy_def isArray_def
      for_of_def process_url_def audit_url_refusing analyze_refusing)

subsection \<open>The world with two report files, run\<close>

lemma summarize_clean: "summarize env clean_report = Inr (Finite 50, [])"
  by (simp add: summarize_def score_of_def extract_issues_def issues_text_def clean_report_def
      get_prop_def opt_prop_def nullish_def to_number_def multiply_def double_defs truthy_def
      object_values_def AList.delete_eq)

lemma analyze_two_sites:
  "analyzeWithAI two_sites_env issues (Some (JStr k)) w = (''<div>fix</div>'', Suc w)"
  by (simp add: analyzeWithAI_def analyze_try_def to_string_opt_def two_sites_env_def
      sample_env_def first_text_sample strip_result_def or_else_def truthy_def)

lemma audit_url_two_sites:
  "audit_url two_sites_env (JStr ''https://a.example/x'') 0 = (Inr (Finite 90, sample_text), 2)"
  "audit_url two_sites_env (JStr ''http://b.example'') 0 = (Inr (Finite 50, []), 2)"
  "audit_url two_sites_env (JStr ''https://c.example'') 0 = (Inl ReadError, 2)"
  by (simp_all add: audit_url_def runLighthouse_def outputDir_def filename_of_def
      two_sites_env_def sample_env_def summarize_sample summarize_clean)

lemma process_url_two_sites:
  "process_url two_sites_env (Some (JStr ''k'')) (JStr ''https://a.example/x'') 0
     = (Inr (result_record (JStr ''https://a.example/x'') (Finite 90) sample_text
              ''<div>fix</div>''), 3)"
  "process_url two_sites_env (Some (JStr ''k'')) (JStr ''http://b.example'') 0
     = (Inr (result_record (JStr ''http://b.example'') (Finite 50) [] ''<div>fix</div>''), 3)"
  "process_url two_sites_env (Some (JStr ''k'')) (JStr ''https://c.example'') 0
     = (Inl ReadError, 2)"
  by (simp_all add: process_url_def audit_url_two_sites analyze_two_sites)

section \<open>The claims\<close>

text \<open>
  C9. The validation does not ask for a non-empty list: the request
  \<open>{urls: [], apiKey: k}\<close> with a non-empty \<open>k\<close> takes no error branch, audits
  nothing, touches nothing outside and is answered 200 with \<open>{results: []}\<close>.
\<close>

theorem empty_urls_accepted:
  assumes "k \<noteq> []"
  shows "post_runaudit env
           \<lparr>http_method = ''POST'', body = Some (JObj [(''urls'', JArr []), (''apiKey'', JStr k)])\<rparr> w
         = (Respond 200 (JObj [(''results'', JArr [])]), w)"
  using assms
  by (simp add: post_runaudit_def request_fields_def get_prop_def truthy_def isArray_def
      for_of_def)

theorem empty_urls_accepted_witness:
  "''k'' \<noteq> [] \<and>
   post_runaudit sample_env
     \<lparr>http_method = ''POST'', body = Some (JObj [(''urls'', JArr []), (''apiKey'', JStr ''k'')])\<rparr> 0
   = (Respond 200 (JObj [(''results'', JArr [])]), 0)"
  using empty_urls_accepted [of "''k''" sample_env 0] by simp

text \<open>
  C8. For a POST whose fields are read as \<open>urls\<close> and \<open>apiKey\<close>: when \<open>urls\<close> is not an
  array (missing, that is \<open>undefined\<close>, included) the answer is 400 with the \<open>urls\<close>
  payload; when \<open>urls\<close> is an array and \<open>apiKey\<close> is missing or otherwise falsy the
  answer is 400 with the \<open>apiKey\<close> payload, which differs from the first; a missing
  \<open>apiKey\<close> is answered 400 in every case. When \<open>req.body\<close> is \<open>undefined\<close> (no body
  was parsed) the fields are read from \<open>testInputs\<close>: \<open>urls\<close> is the fallback list and
  passes its check, \<open>apiKey\<close> is \<open>undefined\<close>, and the request ends at the \<open>apiKey\<close>
  check with 400. By \<open>request_fields_total\<close> the fields can be read for every request.
\<close>

theorem runaudit_validation:
  assumes "http_method req = ''POST''"
    and "request_fields req = Inr (urls, apiKey)"
  shows "(\<not> isArray urls \<longrightarrow> post_runaudit env req w = (Respond 400 urls_error, w))
       \<and> (isArray urls \<and> \<not> truthy apiKey
            \<longrightarrow> post_runaudit env req w = (Respond 400 apiKey_error, w))
       \<and> (\<not> truthy apiKey \<longrightarrow> (\<exists>payload. post_runaudit env req w = (Respond 400 payload, w)))
       \<and> urls_error \<noteq> apiKey_error
       \<and> (body req = None
            \<longrightarrow> urls = opt_prop (Some testInputs) ''urls'' \<and> isArray urls \<and> apiKey = None
              \<and> post_runaudit env req w = (Respond 400 apiKey_error, w))"
proof -
  have arr: "isArray urls \<Longrightarrow> truthy urls"
    by (auto simp: isArray_def truthy_def split: option.splits json.splits)
  have a: "\<not> isArray urls \<Longrightarrow> post_runaudit env req w = (Respond 400 urls_error, w)"
    using assms by (simp add: post_runaudit_def)
  have b: "isArray urls \<Longrightarrow> \<not> truthy apiKey
             \<Longrightarrow> post_runaudit env req w = (Respond 400 apiKey_error, w)"
    using assms arr by (simp add: post_runaudit_def)
  have c: "\<not> truthy apiKey \<Longrightarrow> \<exists>payload. post_runaudit env req w = (Respond 400 payload, w)"
    using a b by (cases "isArray urls") auto
  have d: "urls_error \<noteq> apiKey_error"
    by (simp add: urls_error_def apiKey_error_def)
  have e: "urls = opt_prop (Some testInputs) ''urls'' \<and> isArray urls \<and> apiKey = None"
    if "body req = None"
    using assms(2) that
    by (auto simp: request_fields_def truthy_def testInputs_def get_prop_def opt_prop_def
        nullish_def isArray_def)
  have f: "post_runaudit env req w = (Respond 400 apiKey_error, w)" if "body req = None"
  proof -
    from e [OF that] have arr: "isArray urls" and "apiKey = None"
      by blast+
    then have "\<not> truthy apiKey"
      by (simp add: truthy_def)
    with arr show ?thesis by (rule b)
  qed
  from a b c d e f show ?thesis by blast
qed

theorem runaudit_validation_witness:
  "post_runaudit sample_env \<lparr>http_method = ''POST'', body = Some (JObj [(''apiKey'', JStr ''k'')])\<rparr> 0
     = (Respond 400 urls_error, 0)
   \<and> post_runaudit sample_env
       \<lparr>http_method = ''POST'', body = Some (JObj [(''urls'', JStr ''https://example.com'')])\<rparr> 0
     = (Respond 400 urls_error, 0)
   \<and> post_runaudit sample_env
       \<lparr>http_method = ''POST'', body = Some (JObj [(''urls'', JArr [JStr ''https://example.com''])])\<rparr> 0
     = (Respond 400 apiKey_error, 0)
   \<and> post_runaudit sample_env \<lparr>http_method = ''POST'', body = None\<rparr> 0
     = (Respond 400 apiKey_error, 0)"
  using
    runaudit_validation [of "\<lparr>http_method = ''POST'', body = Some (JObj [(''apiKey'', JStr ''k'')])\<rparr>"
      None "Some (JStr ''k'')" sample_env 0]
    runaudit_validation [of
      "\<lparr>http_method = ''POST'', body = Some (JObj [(''urls'', JStr ''https://example.com'')])\<rparr>"
      "Some (JStr ''https://example.com'')" None sample_env 0]
    runaudit_validation [of
      "\<lparr>http_method = ''POST'', body = Some (JObj [(''urls'', JArr [JStr ''https://example.com''])])\<rparr>"
      "Some (JArr [JStr ''https://example.com''])" None sample_env 0]
    runaudit_validation [of "\<lparr>http_method = ''POST'', body = None\<rparr>"
      "opt_prop (Some testInputs) ''urls''" None sample_env 0]
  by (simp add: request_fields_body request_fields_absent truthy_def isArray_def
      opt_prop_def get_prop_def nullish_def testInputs_def)

text \<open>
  C1. For a POST whose \<open>urls\<close> field is an array and whose \<open>apiKey\<close> is truthy, whenever
  the handler answers at all (no audit, read or type error ended the batch), the
  answer is 200 with \<open>{results}\<close>, where \<open>results\<close> has one record per input URL, in the
  order of the input, the \<open>url\<close> field of the record at each position being the input
  URL at that position. Nothing is asked of the list being non-empty. And the handler
  does answer when the audit of every URL of the list succeeds.
\<close>

theorem results_follow_urls:
  assumes "http_method req = ''POST''"
    and "request_fields req = Inr (Some (JArr urls), apiKey)"
    and "truthy apiKey"
  shows "(post_runaudit env req w = (Respond status payload, w')
           \<longrightarrow> status = 200
             \<and> (\<exists>results. payload = JObj [(''results'', JArr results)]
                  \<and> length results = length urls
                  \<and> (\<forall>i < length urls.
                        get_prop (Some (results ! i)) ''url'' = Inr (Some (urls ! i)))))
       \<and> ((\<forall>u \<in> set urls. \<forall>w0. \<exists>r w1. audit_url env u w0 = (Inr r, w1))
           \<longrightarrow> (\<exists>results w1. post_runaudit env req w
                   = (Respond 200 (JObj [(''results'', JArr results)]), w1)))"
proof -
  have post: "post_runaudit env req w =
      (case audit_loop env apiKey urls [] w of
         (Inl e, w1) \<Rightarrow> (Unhandled e, w1)
       | (Inr results, w1) \<Rightarrow> (Respond 200 (JObj [(''results'', JArr results)]), w1))"
    using assms by (simp add: post_runaudit_def truthy_def isArray_def for_of_def)
  have a: "status = 200
       \<and> (\<exists>results. payload = JObj [(''results'', JArr results)]
            \<and> length results = length urls
            \<and> (\<forall>i < length urls.
                  get_prop (Some (results ! i)) ''url'' = Inr (Some (urls ! i))))"
    if answered: "post_runaudit env req w = (Respond status payload, w')"
  proof -
    from answered post obtain results where
      loop: "audit_loop env apiKey urls [] w = (Inr results, w')" and
      st: "status = 200" and
      pl: "payload = JObj [(''results'', JArr results)]"
      by (auto split: prod.splits sum.splits)
    from audit_loop_Inr [OF loop] have
      all: "list_all2 (\<lambda>u r. \<exists>score itext ai. r = result_record u score itext ai) urls results"
      by simp
    then have len: "length results = length urls"
      by (simp add: list_all2_lengthD)
    have "get_prop (Some (results ! i)) ''url'' = Inr (Some (urls ! i))"
      if "i < length urls" for i
    proof -
      from all that obtain score itext ai where
        "results ! i = result_record (urls ! i) score itext ai"
        by (auto dest: list_all2_nthD)
      then show ?thesis
        by (simp add: result_record_def get_prop_def)
    qed
    with st pl len show ?thesis by blast
  qed
  have b: "\<exists>results w1. post_runaudit env req w
                   = (Respond 200 (JObj [(''results'', JArr results)]), w1)"
    if "\<forall>u \<in> set urls. \<forall>w0. \<exists>r w1. audit_url env u w0 = (Inr r, w1)"
  proof -
    from audit_loop_total [OF that, of apiKey "[]" w] obtain results w1 where
      "audit_loop env apiKey urls [] w = (Inr results, w1)"
      by blast
    with post show ?thesis by simp
  qed
  from a b show ?thesis by blast
qed

theorem results_follow_urls_witness:
  "post_runaudit sample_env
     \<lparr>http_method = ''POST'',
      body = Some (JObj [(''urls'', JArr [JStr ''https://a.example/x'', JStr ''http://b.example'']),
                         (''apiKey'', JStr ''k'')])\<rparr> 0
   = (Respond 200 (JObj [(''results'', JArr
        [result_record (JStr ''https://a.example/x'') (Finite 90) sample_text ''<div>fix</div>'',
         result_record (JStr ''http://b.example'') (Finite 90) sample_text ''<div>fix</div>''])]), 6)
   \<and> get_prop (Some (result_record (JStr ''https://a.example/x'') (Finite 90) sample_text ''<div>fix</div>''))
        ''url'' = Inr (Some (JStr ''https://a.example/x''))
   \<and> get_prop (Some (result_record (JStr ''http://b.example'') (Finite 90) sample_text ''<div>fix</div>''))
        ''url'' = Inr (Some (JStr ''http://b.example''))"
  using results_follow_urls [of
      "\<lparr>http_method = ''POST'',
        body = Some (JObj [(''urls'', JArr [JStr ''https://a.example/x'', JStr ''http://b.example'']),
                           (''apiKey'', JStr ''k'')])\<rparr>"
      "[JStr ''https://a.example/x'', JStr ''http://b.example'']" "Some (JStr ''k'')"
      sample_env 0 200
      "JObj [(''results'', JArr
        [result_record (JStr ''https://a.example/x'') (Finite 90) sample_text ''<div>fix</div>'',
         result_record (JStr ''http://b.example'') (Finite 90) sample_text ''<div>fix</div>''])]" 6]
    post_runaudit_sample
  by (simp add: request_fields_body truthy_def opt_prop_def get_prop_def nullish_def
      result_record_def)

text \<open>
  C2, as amended. Each record the loop appends for a URL is an object whose fields
  are named \<open>url\<close>, \<open>score\<close>, \<open>issues\<close> and \<open>aiFixes\<close>, in this order. \<open>url\<close> is the input
  URL, a string \<open>u\<close>. The audit tool was run on \<open>u\<close> with the report file named after \<open>u\<close>
  as its output path, and that file was then read, in the state the tool left: \<open>score\<close>
  is the score of the report read from it, \<open>issues\<close> the text the issues of that
  report are rendered to, \<open>aiFixes\<close> what \<open>analyzeWithAI\<close> returns for that text. (As
  stated, with a field named \<open>issuesText\<close>, the claim fails: the counterexample reads
  the record of one run, which has no such field.)
\<close>

theorem result_record_fields:
  assumes "process_url env apiKey url w = (Inr r, w')"
  shows "\<exists>u score issuesText aiFixes w0 w1 report issues.
           url = JStr u
         \<and> runLighthouse env u (path_join env (outputDir env) (filename_of u @ ''.json'')) w
             = (Inr (), w0)
         \<and> read_report env (path_join env (outputDir env) (filename_of u @ ''.json'')) w0
             = (Some report, w1)
         \<and> score_of env report = Inr score
         \<and> extract_issues env report = Inr issues
         \<and> issues_text env issues = Inr issuesText
         \<and> analyzeWithAI env issuesText apiKey w1 = (aiFixes, w')
         \<and> r = JObj [(''url'', url), (''score'', JNum score), (''issues'', JStr issuesText),
                     (''aiFixes'', JStr aiFixes)]"
proof -
  from assms obtain score itext w1 aiFixes where
    a: "audit_url env url w = (Inr (score, itext), w1)" and
    g: "analyzeWithAI env itext apiKey w1 = (aiFixes, w')" and
    r: "r = result_record url score itext aiFixes"
    by (auto simp: process_url_def split: prod.splits sum.splits)
  from audit_url_Inr [OF a] obtain u report w0 where
    u: "url = JStr u" and
    l: "runLighthouse env u (path_join env (outputDir env) (filename_of u @ ''.json'')) w
          = (Inr (), w0)" and
    rd: "read_report env (path_join env (outputDir env) (filename_of u @ ''.json'')) w0
           = (Some report, w1)" and
    s: "summarize env report = Inr (score, itext)"
    by blast
  from summarize_Inr [OF s] obtain issues where
    "score_of env report = Inr score" "extract_issues env report = Inr issues"
    "issues_text env issues = Inr itext"
    by blast
  with u l rd g r show ?thesis
    unfolding result_record_def by blast
qed

theorem result_record_fields_witness:
  "process_url two_sites_env (Some (JStr ''k'')) (JStr ''https://a.example/x'') 0
     = (Inr (JObj [(''url'', JStr ''https://a.example/x''), (''score'', JNum (Finite 90)),
                   (''issues'', JStr sample_text), (''aiFixes'', JStr ''<div>fix</div>'')]), 3)
   \<and> process_url two_sites_env (Some (JStr ''k'')) (JStr ''http://b.example'') 0
     = (Inr (JObj [(''url'', JStr ''http://b.example''), (''score'', JNum (Finite 50)),
                   (''issues'', JStr []), (''aiFixes'', JStr ''<div>fix</div>'')]), 3)
   \<and> path_join two_sites_env (outputDir two_sites_env)
         (filename_of ''https://a.example/x'' @ ''.json'')
       = ''/app/public/lighthouse-reports/a.example_x.json''
   \<and> path_join two_sites_env (outputDir two_sites_env)
         (filename_of ''http://b.example'' @ ''.json'')
       = ''/app/public/lighthouse-reports/b.example.json''
   \<and> read_report two_sites_env ''/app/public/lighthouse-reports/a.example_x.json'' 1
       = (Some sample_report, 2)
   \<and> read_report two_sites_env ''/app/public/lighthouse-reports/b.example.json'' 1
       = (Some clean_report, 2)"
proof -
  have paths:
    "path_join two_sites_env (outputDir two_sites_env)
         (filename_of ''https://a.example/x'' @ ''.json'')
       = ''/app/public/lighthouse-reports/a.example_x.json''"
    "path_join two_sites_env (outputDir two_sites_env)
         (filename_of ''http://b.example'' @ ''.json'')
       = ''/app/public/lighthouse-reports/b.example.json''"
    "read_report two_sites_env ''/app/public/lighthouse-reports/a.example_x.json'' 1
       = (Some sample_report, 2)"
    "read_report two_sites_env ''/app/public/lighthouse-reports/b.example.json'' 1
       = (Some clean_report, 2)"
    by (simp_all add: outputDir_def filename_of_def two_sites_env_def sample_env_def)
  from
    result_record_fields [of two_sites_env "Some (JStr ''k'')" "JStr ''https://a.example/x''" 0
      "result_record (JStr ''https://a.example/x'') (Finite 90) sample_text ''<div>fix</div>''" 3]
    result_record_fields [of two_sites_env "Some (JStr ''k'')" "JStr ''http://b.example''" 0
      "result_record (JStr ''http://b.example'') (Finite 50) [] ''<div>fix</div>''" 3]
    paths
  show ?thesis
    by (simp add: process_url_two_sites result_record_def)
qed

theorem result_record_fields_counterexample:
  "fst (process_url sample_env (Some (JStr ''k'')) (JStr ''https://example.com'') 0)
     = Inr (JObj [(''url'', JStr ''https://example.com''), (''score'', JNum (Finite 90)),
                  (''issues'', JStr sample_text), (''aiFixes'', JStr ''<div>fix</div>'')])
   \<and> get_prop (Some (JObj [(''url'', JStr ''https://example.com''), (''score'', JNum (Finite 90)),
                  (''issues'', JStr sample_text), (''aiFixes'', JStr ''<div>fix</div>'')]))
        ''issuesText'' = Inr None
   \<and> map fst [(''url'', JStr ''https://example.com''), (''score'', JNum (Finite 90)),
                  (''issues'', JStr sample_text), (''aiFixes'', JStr ''<div>fix</div>'')]
       \<noteq> [''url'', ''score'', ''issuesText'', ''aiFixes'']"
  by (simp add: process_url_sample result_record_def get_prop_def)

text \<open>
  C3. What the program renders for a failing check that has a detail item: the report
  below has one check of score 0 with title, description and one detail item whose
  \<open>node.snippet\<close> is \<open><img src=logo.png>\<close>. The text is the title line alone, with
  no \<open>Details:\<close> section, and so not the text with the section that lists the
  snippet. \<open>details_block_never_rendered\<close> above says why, for every
  report: the issue's \<open>details\<close> is the array of strings that \<open>map\<close> built, an array has
  no \<open>items\<close>, so \<open>issue.details?.items?.length\<close> is \<open>undefined\<close> and the block that
  formats the snippets is never entered.
\<close>

theorem details_block_dropped:
  "and_then (extract_issues env
       (JObj [(''audits'', JObj
          [(''image-alt'', JObj
             [(''id'', JStr ''image-alt''),
              (''title'', JStr ''Image elements must have alternate text''),
              (''description'', JStr ''Informative elements need alternate text.''),
              (''score'', JNum (Finite 0)),
              (''details'', JObj [(''items'', JArr
                 [JObj [(''node'', JObj [(''snippet'', JStr ''<img src=logo.png>'')])]])])])])]))
     (issues_text env)
   = Inr ''[1]: Image elements must have alternate text - Informative elements need alternate text.''
   \<and> and_then (extract_issues env
       (JObj [(''audits'', JObj
          [(''image-alt'', JObj
             [(''id'', JStr ''image-alt''),
              (''title'', JStr ''Image elements must have alternate text''),
              (''description'', JStr ''Informative elements need alternate text.''),
              (''score'', JNum (Finite 0)),
              (''details'', JObj [(''items'', JArr
                 [JObj [(''node'', JObj [(''snippet'', JStr ''<img src=logo.png>'')])]])])])])]))
     (issues_text env)
   \<noteq> Inr (''[1]: Image elements must have alternate text - Informative elements need alternate text.''
          @ ''\<newline>  Details:\<newline>'' @ ''    [1]: <img src=logo.png>'')"
  by (simp add: extract_issues_def get_prop_def opt_prop_def nullish_def
      object_values_def AList.delete_eq make_issue_def detail_strings_def map_stringify_def
      issues_text_def render_issue_def render_details_def or_else_def truthy_def
      show_nat.simps)

text \<open>
  C4, as amended. For a report whose \<open>categories.accessibility\<close> can be read: when the
  category's \<open>score\<close> is a finite number \<open>s\<close>, the score of the URL is the double that
  the multiplication \<open>s * 100\<close> gives, the exact product rounded to the nearest double
  and not to an integer, and it lies in \<open>[0, 100]\<close> whenever \<open>s\<close> lies in \<open>[0, 1]\<close>; when
  the category or its \<open>score\<close> is absent, or the product is \<open>NaN\<close> or 0, the score is 0;
  the category score 0.76 gives exactly 76. (As stated, with \<open>round\<close>, the claim fails:
  a category score of 0.125 gives 12.5, which no rounding to an integer returns; and
  0.57 gives 56.99999999999999 and not 57, as the witness shows.)
\<close>

theorem score_of_report:
  assumes "get_prop (Some report) ''categories'' = Inr categories"
    and "get_prop categories ''accessibility'' = Inr accessibility"
  shows "(opt_prop accessibility ''score'' = Some (JNum (Finite s))
            \<longrightarrow> score_of env report = Inr (multiply (Finite s) (Finite 100))
              \<and> multiply (Finite s) (Finite 100) = round_double (s * 100)
              \<and> (0 \<le> s \<and> s \<le> 1
                  \<longrightarrow> (\<exists>r. score_of env report = Inr (Finite r) \<and> 0 \<le> r \<and> r \<le> 100)))
       \<and> (opt_prop accessibility ''score'' = None \<longrightarrow> score_of env report = Inr (Finite 0))
       \<and> (to_number env (opt_prop accessibility ''score'') = Inr n
            \<and> (multiply n (Finite 100) = NaN \<or> multiply n (Finite 100) = Finite 0)
            \<longrightarrow> score_of env report = Inr (Finite 0))
       \<and> (opt_prop accessibility ''score'' = Some (JNum (round_double (76 / 100)))
            \<longrightarrow> score_of env report = Inr (Finite 76))"
proof -
  have sc: "score_of env report =
      and_then (to_number env (opt_prop accessibility ''score'')) (\<lambda>n.
        Inr (if truthy (Some (JNum (multiply n (Finite 100))))
             then multiply n (Finite 100) else Finite 0))"
    using assms by (simp add: score_of_def)
  have m: "multiply (Finite s) (Finite 100) = round_double (s * 100)"
    by (simp add: multiply_def)
  have a: "score_of env report = Inr (multiply (Finite s) (Finite 100))"
    if "opt_prop accessibility ''score'' = Some (JNum (Finite s))"
    using that round_double_not_NaN [of "s * 100"]
    by (auto simp: sc to_number_def truthy_def m)
  have b: "\<exists>r. score_of env report = Inr (Finite r) \<and> 0 \<le> r \<and> r \<le> 100"
    if f: "opt_prop accessibility ''score'' = Some (JNum (Finite s))" and "0 \<le> s" "s \<le> 1"
  proof -
    from that(2,3) have "0 \<le> s * 100" "s * 100 \<le> 100" by simp_all
    from round_double_bounds [OF this] a [OF f] m show ?thesis by simp
  qed
  have c: "score_of env report = Inr (Finite 0)"
    if "opt_prop accessibility ''score'' = None"
    using that by (simp add: sc to_number_def multiply_def truthy_def)
  have d: "score_of env report = Inr (Finite 0)"
    if "to_number env (opt_prop accessibility ''score'') = Inr n"
      "multiply n (Finite 100) = NaN \<or> multiply n (Finite 100) = Finite 0"
    using that by (auto simp: sc truthy_def)
  have e: "score_of env report = Inr (Finite 76)"
    if "opt_prop accessibility ''score'' = Some (JNum (round_double (76 / 100)))"
    using that double_076_times_100 by (simp add: sc to_number_def truthy_def)
  from a b c d e m show ?thesis by blast
qed

theorem score_of_report_witness:
  "score_of sample_env
     (JObj [(''categories'', JObj [(''accessibility'',
        JObj [(''score'', JNum (round_double (76 / 100)))])])])
     = Inr (Finite 76)
   \<and> round_double (57 / 100) = Finite (5134103575202365 / 9007199254740992)
   \<and> score_of sample_env
     (JObj [(''categories'', JObj [(''accessibility'',
        JObj [(''score'', JNum (Finite (5134103575202365 / 9007199254740992)))])])])
     = Inr (Finite (8022036836253695 / 140737488355328))
   \<and> (0 :: rat) \<le> 8022036836253695 / 140737488355328
   \<and> (8022036836253695 / 140737488355328 :: rat) \<le> 100
   \<and> (8022036836253695 / 140737488355328 :: rat) < 57
   \<and> score_of sample_env (JObj [(''categories'', JObj [(''accessibility'', JObj [])])])
       = Inr (Finite 0)
   \<and> score_of sample_env (JObj [(''categories'', JObj [])]) = Inr (Finite 0)
   \<and> score_of sample_env
     (JObj [(''categories'', JObj [(''accessibility'', JObj [(''score'', JNull)])])])
     = Inr (Finite 0)"
proof -
  have a: "score_of sample_env
     (JObj [(''categories'', JObj [(''accessibility'',
        JObj [(''score'', JNum (round_double (76 / 100)))])])])
     = Inr (Finite 76)"
    using score_of_report [of
      "JObj [(''categories'', JObj [(''accessibility'',
         JObj [(''score'', JNum (round_double (76 / 100)))])])]"
      "Some (JObj [(''accessibility'', JObj [(''score'', JNum (round_double (76 / 100)))])])"
      "Some (JObj [(''score'', JNum (round_double (76 / 100)))])" 0 sample_env NaN]
    by (simp add: get_prop_def opt_prop_def nullish_def)
  have b: "score_of sample_env
     (JObj [(''categories'', JObj [(''accessibility'',
        JObj [(''score'', JNum (Finite (5134103575202365 / 9007199254740992)))])])])
     = Inr (Finite (8022036836253695 / 140737488355328))"
    using score_of_report [of
      "JObj [(''categories'', JObj [(''accessibility'',
         JObj [(''score'', JNum (Finite (5134103575202365 / 9007199254740992)))])])]"
      "Some (JObj [(''accessibility'',
         JObj [(''score'', JNum (Finite (5134103575202365 / 9007199254740992)))])])"
      "Some (JObj [(''score'', JNum (Finite (5134103575202365 / 9007199254740992)))])"
      "5134103575202365 / 9007199254740992" sample_env NaN]
      double_057_times_100
    by (simp add: get_prop_def opt_prop_def nullish_def)
  have c: "score_of sample_env (JObj [(''categories'', JObj [(''accessibility'', JObj [])])])
       = Inr (Finite 0)"
    using score_of_report [of
      "JObj [(''categories'', JObj [(''accessibility'', JObj [])])]"
      "Some (JObj [(''accessibility'', JObj [])])" "Some (JObj [])" 0 sample_env NaN]
    by (simp add: get_prop_def opt_prop_def nullish_def)
  have d: "score_of sample_env (JObj [(''categories'', JObj [])]) = Inr (Finite 0)"
    using score_of_report [of
      "JObj [(''categories'', JObj [])]" "Some (JObj [])" None 0 sample_env NaN]
    by (simp add: get_prop_def opt_prop_def nullish_def)
  have e: "score_of sample_env
     (JObj [(''categories'', JObj [(''accessibility'', JObj [(''score'', JNull)])])])
     = Inr (Finite 0)"
    using score_of_report [of
      "JObj [(''categories'', JObj [(''accessibility'', JObj [(''score'', JNull)])])]"
      "Some (JObj [(''accessibility'', JObj [(''score'', JNull)])])"
      "Some (JObj [(''score'', JNull)])" 0 sample_env "Finite 0"]
    by (simp add: get_prop_def opt_prop_def nullish_def to_number_def multiply_def
        round_double_def)
  from a b c d e double_057 show ?thesis by simp
qed

theorem score_of_counterexample:
  "score_of sample_env
     (JObj [(''categories'', JObj [(''accessibility'', JObj [(''score'', JNum (Finite (1 / 8)))])])])
     = Inr (Finite (25 / 2))
   \<and> score_of sample_env
     (JObj [(''categories'', JObj [(''accessibility'', JObj [(''score'', JNum (Finite (1 / 8)))])])])
     \<noteq> Inr (Finite (of_int (round ((1 / 8 :: rat) * 100))))"
  by (simp add: score_of_def get_prop_def opt_prop_def nullish_def to_number_def multiply_def
      double_defs truthy_def round_def)

text \<open>
  C5. For a report whose \<open>audits\<close> can be enumerated as \<open>checks\<close>: whenever the issues
  are produced, they are made, one for one and in the order of enumeration, from the
  checks whose \<open>score\<close> is the number 0 and from no other check, and the block rendered
  for the issue at position \<open>i\<close> (from 0) opens with the serial number \<open>i + 1\<close>. They are
  produced whenever no check is \<open>null\<close> and each check's \<open>details.items\<close> is absent or
  an array. Checks of score 0.5, \<open>null\<close>, 1, any non-zero number, or of no score at
  all yield no issue.
\<close>

theorem issues_are_zero_score_checks:
  assumes "get_prop (Some report) ''audits'' = Inr audits"
    and "object_values audits = Inr checks"
  shows "(extract_issues env report = Inr issues \<longrightarrow>
            map_issues env
              (filter (\<lambda>a. get_prop (Some a) ''score'' = Inr (Some (JNum (Finite 0)))) checks)
              = Inr issues
          \<and> length issues
              = length (filter (\<lambda>a. get_prop (Some a) ''score'' = Inr (Some (JNum (Finite 0)))) checks)
          \<and> (\<forall>i < length issues.
                make_issue env
                  (filter (\<lambda>a. get_prop (Some a) ''score'' = Inr (Some (JNum (Finite 0)))) checks ! i)
                  = Inr (issues ! i))
          \<and> (\<forall>blocks. render_issues env 0 issues = Inr blocks \<longrightarrow>
                length blocks = length issues
                \<and> (\<forall>i < length issues.
                      prefix (''['' @ show_nat (i + 1) @ '']: '') (blocks ! i))))
       \<and> ((\<forall>a \<in> set checks. a \<noteq> JNull
               \<and> (nullish (opt_prop (opt_prop (Some a) ''details'') ''items'')
                  \<or> isArray (opt_prop (opt_prop (Some a) ''details'') ''items'')))
            \<longrightarrow> (\<exists>found. extract_issues env report = Inr found))
       \<and> filter_failing
            [JObj [(''score'', JNum (Finite (1 / 2)))], JObj [(''score'', JNull)],
             JObj [(''score'', JNum (Finite 1))], JObj [(''score'', JNum (Finite 0))], JObj []]
           = Inr [JObj [(''score'', JNum (Finite 0))]]
       \<and> (n \<noteq> Finite 0 \<longrightarrow> filter_failing [JObj [(''score'', JNum n)]] = Inr [])"
proof -
  let ?kept = "filter (\<lambda>a. get_prop (Some a) ''score'' = Inr (Some (JNum (Finite 0)))) checks"
  have ex: "extract_issues env report
              = and_then (filter_failing checks) (\<lambda>failing. map_issues env failing)"
    using assms by (simp add: extract_issues_def)
  have a: "map_issues env ?kept = Inr issues" if "extract_issues env report = Inr issues"
  proof -
    from that ex obtain failing where
      f: "filter_failing checks = Inr failing" and m: "map_issues env failing = Inr issues"
      by (auto simp: and_then_eq_Inr)
    from filter_failing_Inr [OF f] m show ?thesis by simp
  qed
  have b: "length issues = length ?kept" if "extract_issues env report = Inr issues"
    using map_issues_length [OF a [OF that]] .
  have c: "make_issue env (?kept ! i) = Inr (issues ! i)"
    if "extract_issues env report = Inr issues" "i < length issues" for i
    using map_issues_nth [OF a [OF that(1)]] b [OF that(1)] that(2) by simp
  have d: "length blocks = length issues
           \<and> (\<forall>i < length issues. prefix (''['' @ show_nat (i + 1) @ '']: '') (blocks ! i))"
    if r: "render_issues env 0 issues = Inr blocks" for blocks
  proof -
    have "prefix (''['' @ show_nat (i + 1) @ '']: '') (blocks ! i)" if "i < length issues" for i
      using render_issue_prefix [OF render_issues_nth [OF r that]] by simp
    with render_issues_length [OF r] show ?thesis by blast
  qed
  have e: "\<exists>found. extract_issues env report = Inr found"
    if wf: "\<forall>a \<in> set checks. a \<noteq> JNull
               \<and> (nullish (opt_prop (opt_prop (Some a) ''details'') ''items'')
                  \<or> isArray (opt_prop (opt_prop (Some a) ''details'') ''items''))"
  proof -
    from wf have "JNull \<notin> set checks" by auto
    then obtain kept where k: "filter_failing checks = Inr kept"
      using filter_failing_total by blast
    from filter_failing_Inr [OF k] have "set kept \<subseteq> set checks" by auto
    with wf have "\<forall>a \<in> set kept. a \<noteq> JNull
               \<and> (nullish (opt_prop (opt_prop (Some a) ''details'') ''items'')
                  \<or> isArray (opt_prop (opt_prop (Some a) ''details'') ''items''))"
      by blast
    from map_issues_total [OF this] obtain xs where "map_issues env kept = Inr xs" by blast
    with k ex show ?thesis by simp
  qed
  have f: "filter_failing
            [JObj [(''score'', JNum (Finite (1 / 2)))], JObj [(''score'', JNull)],
             JObj [(''score'', JNum (Finite 1))], JObj [(''score'', JNum (Finite 0))], JObj []]
           = Inr [JObj [(''score'', JNum (Finite 0))]]"
    by (simp add: get_prop_def)
  have g: "n \<noteq> Finite 0 \<Longrightarrow> filter_failing [JObj [(''score'', JNum n)]] = Inr []"
    by (simp add: get_prop_def)
  from a b c d e f g show ?thesis by blast
qed

theorem issues_are_zero_score_checks_witness:
  "extract_issues sample_env sample_report = Inr (sample_issues sample_env)
   \<and> filter (\<lambda>a. get_prop (Some a) ''score'' = Inr (Some (JNum (Finite 0)))) (map snd sample_audits)
       = [snd (sample_audits ! 0), snd (sample_audits ! 4)]
   \<and> map_issues sample_env [snd (sample_audits ! 0), snd (sample_audits ! 4)]
       = Inr (sample_issues sample_env)
   \<and> length (sample_issues sample_env) = 2
   \<and> render_issues sample_env 0 (sample_issues sample_env) =
       Inr [''[1]: Image elements must have alternate text - Informative elements need alternate text.'',
            ''[2]: The html element has a lang attribute - No description'']
   \<and> filter_failing [JObj [(''score'', JNum (Finite 1))]] = Inr []"
proof -
  have p: "get_prop (Some sample_report) ''audits'' = Inr (Some (JObj sample_audits))"
    by (simp add: sample_report_def get_prop_def)
  have q: "object_values (Some (JObj sample_audits)) = Inr (map snd sample_audits)"
    by (simp add: object_values_def sample_audits_def AList.delete_eq)
  have k: "filter (\<lambda>a. get_prop (Some a) ''score'' = Inr (Some (JNum (Finite 0)))) (map snd sample_audits)
       = [snd (sample_audits ! 0), snd (sample_audits ! 4)]"
    by (simp add: sample_audits_def get_prop_def)
  have l: "length (sample_issues sample_env) = 2"
    by (simp add: sample_issues_def)
  from issues_are_zero_score_checks [OF p q, of sample_env "sample_issues sample_env" "Finite 1"]
    k l extract_issues_sample [of sample_env] render_issues_sample [of sample_env]
  show ?thesis by simp
qed

text \<open>
  C6. \<open>analyzeWithAI\<close> returns a string for every input and every world. When anything
  is thrown inside its \<open>try\<close> block the string is \<open>"AI analysis failed."\<close>; so it is
  when the endpoint answers with a non-success status, whatever the body, and when
  \<open>fetch\<close> rejects. The loop goes on: once the audit of a URL has given its score and
  text, the URL's record is appended whatever the AI step met; a batch all of whose
  audits succeed returns one record per URL; and a batch that fails fails with an
  error of the audit of one of its URLs, never of the AI step.
\<close>

theorem analyze_never_fails:
  "(\<exists>s w1. analyzeWithAI env issues apiKey w = (s, w1))
   \<and> (analyze_try env issues apiKey w = (Inl e, w1)
        \<longrightarrow> analyzeWithAI env issues apiKey w = (failure_text, w1))
   \<and> (to_string_opt env apiKey = Inr key
        \<and> fetch env (endpoint @ key) (request_body (prompt_head @ issues @ prompt_tail)) w
            = (Response False st b, w1)
        \<longrightarrow> analyzeWithAI env issues apiKey w = (failure_text, w1))
   \<and> (to_string_opt env apiKey = Inr key
        \<and> fetch env (endpoint @ key) (request_body (prompt_head @ issues @ prompt_tail)) w
            = (Rejected, w1)
        \<longrightarrow> analyzeWithAI env issues apiKey w = (failure_text, w1))
   \<and> (audit_url env url w = (Inr (score, issuesText), w1)
        \<longrightarrow> (\<exists>aiFixes w2. process_url env apiKey url w
                = (Inr (result_record url score issuesText aiFixes), w2)))
   \<and> ((\<forall>u \<in> set urls. \<forall>w0. \<exists>r w2. audit_url env u w0 = (Inr r, w2))
        \<longrightarrow> (\<exists>results w'. audit_loop env apiKey urls [] w = (Inr results, w')
               \<and> length results = length urls))
   \<and> (audit_loop env apiKey urls [] w = (Inl e', w')
        \<longrightarrow> (\<exists>u \<in> set urls. \<exists>w0 w2. audit_url env u w0 = (Inl e', w2)))"
proof -
  have a: "\<exists>s w1. analyzeWithAI env issues apiKey w = (s, w1)"
    by (cases "analyzeWithAI env issues apiKey w") simp
  have p: "\<exists>aiFixes w2. process_url env apiKey url w
                = (Inr (result_record url score issuesText aiFixes), w2)"
    if "audit_url env url w = (Inr (score, issuesText), w1)"
    using that by (cases "analyzeWithAI env issuesText apiKey w1") (auto simp: process_url_def)
  have l: "\<exists>results w'. audit_loop env apiKey urls [] w = (Inr results, w')
               \<and> length results = length urls"
    if "\<forall>u \<in> set urls. \<forall>w0. \<exists>r w2. audit_url env u w0 = (Inr r, w2)"
    using audit_loop_total [OF that, of apiKey "[]" w] by simp
  from a p l analyze_caught [of env issues apiKey w e w1]
    analyze_not_ok [of env apiKey key issues w st b w1]
    analyze_rejected [of env apiKey key issues w w1]
    audit_loop_Inl [of env apiKey urls "[]" w e' w']
  show ?thesis by blast
qed

theorem analyze_never_fails_witness:
  "analyzeWithAI refusing_env sample_text (Some (JStr ''k'')) 0 = (failure_text, 1)
   \<and> analyzeWithAI offline_env sample_text (Some (JStr ''k'')) 0 = (failure_text, 1)
   \<and> post_runaudit refusing_env
       \<lparr>http_method = ''POST'',
        body = Some (JObj [(''urls'', JArr [JStr ''https://a.example/x'', JStr ''http://b.example'']),
                           (''apiKey'', JStr ''k'')])\<rparr> 0
     = (Respond 200 (JObj [(''results'', JArr
          [result_record (JStr ''https://a.example/x'') (Finite 90) sample_text failure_text,
           result_record (JStr ''http://b.example'') (Finite 90) sample_text failure_text])]), 6)"
proof -
  have r: "fetch refusing_env (endpoint @ ''k'')
             (request_body (prompt_head @ sample_text @ prompt_tail)) 0
           = (Response False ''Forbidden''
               (Some (JObj [(''error'', JObj [(''message'', JStr ''API key not valid'')])])), 1)"
    by (simp add: refusing_env_def sample_env_def)
  have k: "to_string_opt refusing_env (Some (JStr ''k'')) = Inr ''k''"
    by (simp add: to_string_opt_def)
  have "analyzeWithAI refusing_env sample_text (Some (JStr ''k'')) 0 = (failure_text, 1)"
    using analyze_never_fails [of refusing_env sample_text "Some (JStr ''k'')" 0 TypeError 1
        "''k''" "''Forbidden''"
        "Some (JObj [(''error'', JObj [(''message'', JStr ''API key not valid'')])])"
        "JStr ''u''" "Finite 0" "[]" "[]" TypeError 0] r k
    by blast
  then show ?thesis
    using analyze_offline [of sample_text "''k''" 0] post_runaudit_refusing by simp
qed

text \<open>
  C7, as amended. When the endpoint answers with a success status and the first
  candidate's first part has a non-empty text \<open>t\<close>, \<open>analyzeWithAI\<close> returns \<open>t\<close> with every
  occurrence of \<open>```html\<close> and of \<open>```\<close> removed, wherever it stands: a text without a
  backquote comes back unchanged, and a marker between two such texts is removed as
  one at either end is. (As stated, with markers inside the text preserved, the claim
  fails: the counterexample is the text \<open>a```b\<close>, returned as \<open>ab\<close>.)
\<close>

theorem analyze_strips_every_fence:
  assumes "to_string_opt env apiKey = Inr key"
    and "fetch env (endpoint @ key) (request_body (prompt_head @ issues @ prompt_tail)) w
           = (Response True st (Some data), w1)"
    and "first_text data = Inr (Some (JStr t))"
    and "t \<noteq> []"
  shows "analyzeWithAI env issues apiKey w = (replace_fences t, w1)
       \<and> (CHR ''`'' \<notin> set t \<longrightarrow> replace_fences t = t)
       \<and> (CHR ''`'' \<notin> set a \<and> CHR ''`'' \<notin> set b
            \<longrightarrow> replace_fences (a @ ''```html'' @ b) = a @ b
              \<and> replace_fences (a @ ''```'' @ b)
                  = a @ (if prefix ''html'' b then drop 4 b else b))"
proof -
  have r: "analyzeWithAI env issues apiKey w = (replace_fences t, w1)"
    using assms
    by (simp add: analyzeWithAI_def analyze_try_ok strip_result_text)
  have h: "replace_fences (a @ ''```html'' @ b) = a @ b"
    if "CHR ''`'' \<notin> set a" "CHR ''`'' \<notin> set b"
  proof -
    have "replace_fences (a @ ''```html'' @ b) = a @ replace_fences (''```html'' @ b)"
      using replace_fences_plain [OF that(1)] by blast
    also have "\<dots> = a @ replace_fences b"
      by (simp only: replace_fences_html)
    also have "\<dots> = a @ b"
      using replace_fences_clean [OF that(2)] by simp
    finally show ?thesis .
  qed
  have s: "replace_fences (a @ ''```'' @ b) = a @ (if prefix ''html'' b then drop 4 b else b)"
    if "CHR ''`'' \<notin> set a" "CHR ''`'' \<notin> set b"
  proof -
    have c: "CHR ''`'' \<notin> set (if prefix ''html'' b then drop 4 b else b)"
      using that(2) by (auto dest: in_set_dropD)
    have "replace_fences (a @ ''```'' @ b) = a @ replace_fences (''```'' @ b)"
      using replace_fences_plain [OF that(1)] by blast
    also have "\<dots> = a @ replace_fences (if prefix ''html'' b then drop 4 b else b)"
      by (simp only: replace_fences_bare)
    also have "\<dots> = a @ (if prefix ''html'' b then drop 4 b else b)"
      using replace_fences_clean [OF c] by simp
    finally show ?thesis .
  qed
  from r h s replace_fences_clean [of t] show ?thesis by blast
qed

theorem analyze_strips_every_fence_witness:
  "analyzeWithAI (answering_env ''```html<p>a```b</p>```'') sample_text (Some (JStr ''k'')) 0
     = (''<p>ab</p>'', 1)
   \<and> analyzeWithAI (answering_env ''<p>x</p>'') sample_text (Some (JStr ''k'')) 0
     = (''<p>x</p>'', 1)
   \<and> replace_fences (''see '' @ ''```html'' @ ''<b>'') = ''see '' @ ''<b>''
   \<and> replace_fences (''see '' @ ''```'' @ ''<b>'') = ''see '' @ ''<b>''"
proof -
  have k: "to_string_opt (answering_env t) (Some (JStr ''k'')) = Inr ''k''" for t
    by (simp add: to_string_opt_def)
  have f: "fetch (answering_env t) (endpoint @ ''k'')
             (request_body (prompt_head @ sample_text @ prompt_tail)) 0
           = (Response True ''OK'' (Some (sample_answer t)), 1)" for t
    by (simp add: answering_env_def replying_env_def sample_env_def)
  have n: "''```html<p>a```b</p>```'' \<noteq> []" and m: "''<p>x</p>'' \<noteq> []"
    by simp_all
  from analyze_strips_every_fence [OF k f first_text_sample n, of "''see ''" "''<b>''"]
    analyze_strips_every_fence [OF k f first_text_sample m, of "''see ''" "''<b>''"]
  show ?thesis by simp
qed

theorem analyze_strips_every_fence_counterexample:
  "fst (analyzeWithAI (answering_env ''a```b'') sample_text (Some (JStr ''k'')) 0) = ''ab''
   \<and> fst (analyzeWithAI (answering_env ''a```b'') sample_text (Some (JStr ''k'')) 0) \<noteq> ''a```b''"
  by (simp add: analyze_answering)

text \<open>
  C10. When the endpoint answers with a success status and the chain
  \<open>data.candidates[0]?.content?.parts[0]?.text\<close> gives \<open>undefined\<close> (no text part) or
  the empty string, nothing is thrown, and yet the value returned is the text
  \<open>"AI analysis failed."\<close> that the \<open>catch\<close> returns for an error.
\<close>

theorem empty_generation_reads_as_failure:
  assumes "to_string_opt env apiKey = Inr key"
    and "fetch env (endpoint @ key) (request_body (prompt_head @ issues @ prompt_tail)) w
           = (Response True st (Some data), w1)"
    and "first_text data = Inr t"
    and "t = None \<or> t = Some (JStr [])"
  shows "analyze_try env issues apiKey w = (Inr failure_text, w1)
       \<and> analyzeWithAI env issues apiKey w = (failure_text, w1)"
proof -
  from assms(4) have "\<not> truthy t"
    by (auto simp: truthy_def)
  then have "strip_result t = Inr failure_text"
    by (rule strip_result_falsy)
  with assms(1-3) have "analyze_try env issues apiKey w = (Inr failure_text, w1)"
    by (simp add: analyze_try_ok)
  then show ?thesis
    by (simp add: analyzeWithAI_def)
qed

theorem empty_generation_reads_as_failure_witness:
  "first_text (sample_answer []) = Inr (Some (JStr []))
   \<and> analyze_try (answering_env []) sample_text (Some (JStr ''k'')) 0 = (Inr failure_text, 1)
   \<and> analyzeWithAI (answering_env []) sample_text (Some (JStr ''k'')) 0 = (failure_text, 1)
   \<and> first_text
         (JObj [(''candidates'', JArr [JObj [(''content'', JObj [(''parts'', JArr [JObj []])])]])])
       = Inr None
   \<and> analyzeWithAI
         (replying_env
           (JObj [(''candidates'', JArr [JObj [(''content'', JObj [(''parts'', JArr [JObj []])])]])]))
         sample_text (Some (JStr ''k'')) 0 = (failure_text, 1)
   \<and> first_text (JObj [(''candidates'', JArr [JObj [(''content'', JObj [(''parts'', JArr [])])]])])
       = Inr None
   \<and> analyzeWithAI
         (replying_env
           (JObj [(''candidates'', JArr [JObj [(''content'', JObj [(''parts'', JArr [])])]])]))
         sample_text (Some (JStr ''k'')) 0 = (failure_text, 1)
   \<and> analyzeWithAI refusing_env sample_text (Some (JStr ''k'')) 0 = (failure_text, 1)"
proof -
  have k: "to_string_opt (replying_env data) (Some (JStr ''k'')) = Inr ''k''" for data
    by (simp add: to_string_opt_def)
  have f: "fetch (replying_env data) (endpoint @ ''k'')
             (request_body (prompt_head @ sample_text @ prompt_tail)) 0
           = (Response True ''OK'' (Some data), 1)" for data
    by (simp add: replying_env_def sample_env_def)
  have a: "first_text
         (JObj [(''candidates'', JArr [JObj [(''content'', JObj [(''parts'', JArr [JObj []])])]])])
       = Inr None"
    by (simp add: first_text_def get_prop_def get_first_def opt_prop_def nullish_def)
  have b: "first_text
         (JObj [(''candidates'', JArr [JObj [(''content'', JObj [(''parts'', JArr [])])]])])
       = Inr None"
    by (simp add: first_text_def get_prop_def get_first_def opt_prop_def nullish_def)
  from empty_generation_reads_as_failure [OF k f first_text_sample]
    empty_generation_reads_as_failure [OF k f a]
    empty_generation_reads_as_failure [OF k f b]
    analyze_refusing [of sample_text "''k''" 0] a b
  show ?thesis by (simp add: first_text_sample answering_env_def)
qed

end
